theory Spec2Isabelle
  imports Complex_Main "HOL-Library.Char_ord" "HOL-Library.List_Lexorder"
begin

section \<open>JavaScript strings\<close>

text \<open>
  A JavaScript string is modelled as a \<^typ>\<open>string\<close>: the list of its code units, each
  below 256 (ASCII and the Latin-1 supplement). \<open>length\<close> is JavaScript's \<open>.length\<close>,
  the order on \<^typ>\<open>char\<close> is the order of the code units, and the lexicographic order on
  lists is the order \<open>Array.prototype.sort()\<close> uses when it is given no comparator.
\<close>

definition is_digit :: "char \<Rightarrow> bool" where
  "is_digit c = (CHR ''0'' \<le> c \<and> c \<le> CHR ''9'')"

definition is_upper :: "char \<Rightarrow> bool" where
  "is_upper c = (CHR ''A'' \<le> c \<and> c \<le> CHR ''Z'')"

definition is_lower :: "char \<Rightarrow> bool" where
  "is_lower c = (CHR ''a'' \<le> c \<and> c \<le> CHR ''z'')"

definition is_alpha :: "char \<Rightarrow> bool" where
  "is_alpha c = (is_lower c \<or> is_upper c)"

text \<open>\<open>\w\<close>: letters, digits and the underscore.\<close>

definition is_word :: "char \<Rightarrow> bool" where
  "is_word c = (is_alpha c \<or> is_digit c \<or> c = CHR ''_'')"

text \<open>\<open>\s\<close>, also what \<open>trim()\<close> strips: tab, line feed, vertical tab, form feed, carriage
  return, space and the no-break space (the white space and line terminators below 256).\<close>

definition is_space :: "char \<Rightarrow> bool" where
  "is_space c = (c = CHR '' '' \<or> (CHR 0x09 \<le> c \<and> c \<le> CHR 0x0D) \<or> c = CHR 0xA0)"

text \<open>The dot of a regular expression: any code unit but a line terminator.\<close>

definition is_dot :: "char \<Rightarrow> bool" where
  "is_dot c = (c \<noteq> CHR 0x0A \<and> c \<noteq> CHR 0x0D)"

text \<open>Latin-1 capitals with a Latin-1 small form, and the small forms that have a
  Latin-1 capital (the multiplication and division signs lie inside the ranges).\<close>

definition is_upper_l1 :: "char \<Rightarrow> bool" where
  "is_upper_l1 c = (is_upper c \<or> (CHR 0xC0 \<le> c \<and> c \<le> CHR 0xDE \<and> c \<noteq> CHR 0xD7))"

definition is_lower_l1 :: "char \<Rightarrow> bool" where
  "is_lower_l1 c = (is_lower c \<or> (CHR 0xE0 \<le> c \<and> c \<le> CHR 0xFE \<and> c \<noteq> CHR 0xF7))"

text \<open>In both ranges the small form of a capital is the code unit 32 above it: the
  same bits with bit 5 set.\<close>

fun with_bit5 :: "bool \<Rightarrow> char \<Rightarrow> char" where
  "with_bit5 v (Char b0 b1 b2 b3 b4 b5 b6 b7) = Char b0 b1 b2 b3 b4 v b6 b7"

definition lower_char :: "char \<Rightarrow> char" where
  "lower_char c = (if is_upper_l1 c then with_bit5 True c else c)"

definition upper_char :: "char \<Rightarrow> char" where
  "upper_char c = (if is_lower_l1 c then with_bit5 False c else c)"

definition toLowerCase :: "string \<Rightarrow> string" where
  "toLowerCase s = map lower_char s"

text \<open>\<open>toUpperCase\<close> of the micro sign, the sharp s and the y with diaeresis leaves Latin-1
  (or is two code units long); the model keeps these three as they are. The program
  applies it only to the first character of a word of a validated name, which is an
  ASCII letter, a period, an apostrophe or a hyphen.\<close>

definition toUpperCase :: "string \<Rightarrow> string" where
  "toUpperCase s = map upper_char s"

definition trim :: "string \<Rightarrow> string" where
  "trim s = rev (dropWhile is_space (rev (dropWhile is_space s)))"

fun startsWith :: "string \<Rightarrow> string \<Rightarrow> bool" where
  "startsWith s [] = True"
| "startsWith [] (c # p) = False"
| "startsWith (d # s) (c # p) = (if d = c then startsWith s p else False)"

definition endsWith :: "string \<Rightarrow> string \<Rightarrow> bool" where
  "endsWith s p = (length p \<le> length s \<and> drop (length s - length p) s = p)"

text \<open>\<open>s.includes(p)\<close>: \<open>p\<close> is a substring of \<open>s\<close>.\<close>

fun includes_str :: "string \<Rightarrow> string \<Rightarrow> bool" where
  "includes_str [] p = (p = [])"
| "includes_str (c # cs) p = (startsWith (c # cs) p \<or> includes_str cs p)"

text \<open>\<open>s.substring(i, j)\<close> and \<open>s.substring(i)\<close> for \<open>i \<le> j\<close>.\<close>

definition substring :: "string \<Rightarrow> nat \<Rightarrow> nat \<Rightarrow> string" where
  "substring s i j = take (j - i) (drop i s)"

definition substring_from :: "string \<Rightarrow> nat \<Rightarrow> string" where
  "substring_from s i = drop i s"

text \<open>\<open>s.split(c)\<close> for a separator of one character: the pieces between the separators,
  always at least one.\<close>

fun split_acc :: "char \<Rightarrow> string \<Rightarrow> string \<Rightarrow> string list" where
  "split_acc sep acc [] = [rev acc]"
| "split_acc sep acc (c # cs) =
     (if c = sep then rev acc # split_acc sep [] cs else split_acc sep (c # acc) cs)"

definition split :: "string \<Rightarrow> char \<Rightarrow> string list" where
  "split s sep = split_acc sep [] s"

text \<open>\<open>s.split(/\s+/)\<close>: a run of white space is one separator; a run at either end
  leaves an empty piece there.\<close>

fun split_ws_acc :: "string \<Rightarrow> string \<Rightarrow> string list"
  and split_ws_skip :: "string \<Rightarrow> string list"
where
  "split_ws_acc acc [] = [rev acc]"
| "split_ws_acc acc (c # cs) =
     (if is_space c then rev acc # split_ws_skip cs else split_ws_acc (c # acc) cs)"
| "split_ws_skip [] = [[]]"
| "split_ws_skip (c # cs) = (if is_space c then split_ws_skip cs else split_ws_acc [c] cs)"

definition split_ws :: "string \<Rightarrow> string list" where
  "split_ws s = split_ws_acc [] s"

text \<open>\<open>xs[i]\<close>, \<open>undefined\<close> outside the array.\<close>

definition nth_opt :: "'a list \<Rightarrow> nat \<Rightarrow> 'a option" where
  "nth_opt xs i = (if i < length xs then Some (xs ! i) else None)"

text \<open>A \<open>Set\<close> keeps its elements in the order of their first insertion, and
  \<open>Array.from\<close> lists them in that order.\<close>

definition set_add :: "'a list \<Rightarrow> 'a \<Rightarrow> 'a list" where
  "set_add s x = (if x \<in> set s then s else s @ [x])"

definition set_add_all :: "'a list \<Rightarrow> 'a list \<Rightarrow> 'a list" where
  "set_add_all s xs = foldl set_add s xs"

text \<open>\<open>arr.filter((x, index, arr) => arr.indexOf(x) === index)\<close> keeps the first of
  equal elements.\<close>

fun dedup_acc :: "'a list \<Rightarrow> 'a list \<Rightarrow> 'a list" where
  "dedup_acc seen [] = []"
| "dedup_acc seen (x # xs) =
     (if x \<in> set seen then dedup_acc seen xs else x # dedup_acc (x # seen) xs)"

definition dedup :: "'a list \<Rightarrow> 'a list" where
  "dedup xs = dedup_acc [] xs"

section \<open>Regular expressions\<close>

text \<open>
  The program's regular expressions are terms of \<open>rx\<close>, matched by a backtracking
  matcher with the priorities of ECMAScript: the alternatives of \<open>|\<close> from left to
  right, a greedy quantifier the longest first, a lazy one the shortest first.
  A character class is a predicate on code units; under the \<open>i\<close> flag the class is
  closed under case (\<open>ci\<close>). Only the groups the program reads (\<open>match[1]\<close>, \<open>$1\<close>,
  \<open>\1\<close>) are capturing groups here.
\<close>

datatype rx =
    Cls "char \<Rightarrow> bool"
  | Eps
  | Seq rx rx
  | Alt rx rx
  | Rep bool nat "nat option" rx
  | Bol
  | Eol
  | WordB
  | Grp nat rx
  | Backref bool nat

text \<open>A position of the matcher: the text before it (reversed), the text after it, its
  index and the captures so far (the latest first).\<close>

datatype pos = Pos string string int "(nat \<times> string) list"

fun idx :: "pos \<Rightarrow> int" where
  "idx (Pos b a i caps) = i"

fun rest :: "pos \<Rightarrow> string" where
  "rest (Pos b a i caps) = a"

fun captures :: "pos \<Rightarrow> (nat \<times> string) list" where
  "captures (Pos b a i caps) = caps"

fun keep :: "bool \<Rightarrow> pos \<Rightarrow> pos list" where
  "keep True st = [st]"
| "keep False st = []"

fun step_cls :: "(char \<Rightarrow> bool) \<Rightarrow> pos \<Rightarrow> pos list" where
  "step_cls p (Pos b [] i caps) = []"
| "step_cls p (Pos b (c # cs) i caps) = keep (p c) (Pos (c # b) cs (i + 1) caps)"

text \<open>\<open>\b\<close>: exactly one of the two neighbours is a word character.\<close>

fun word_boundary :: "string \<Rightarrow> string \<Rightarrow> bool" where
  "word_boundary [] [] = False"
| "word_boundary [] (d # ds) = is_word d"
| "word_boundary (c # cs) [] = is_word c"
| "word_boundary (c # cs) (d # ds) = (is_word c \<noteq> is_word d)"

fun step_wordb :: "pos \<Rightarrow> pos list" where
  "step_wordb (Pos b a i caps) = keep (word_boundary b a) (Pos b a i caps)"

fun step_bol :: "pos \<Rightarrow> pos list" where
  "step_bol (Pos [] a i caps) = [Pos [] a i caps]"
| "step_bol (Pos (c # b) a i caps) = []"

fun step_eol :: "pos \<Rightarrow> pos list" where
  "step_eol (Pos b [] i caps) = [Pos b [] i caps]"
| "step_eol (Pos b (c # cs) i caps) = []"

text \<open>A group that closes at a position records the text consumed since it opened.\<close>

fun close_grp :: "nat \<Rightarrow> int \<Rightarrow> pos \<Rightarrow> pos" where
  "close_grp k i0 (Pos b a i caps) = Pos b a i ((k, rev (take (nat (i - i0)) b)) # caps)"

fun lookup_grp :: "nat \<Rightarrow> (nat \<times> string) list \<Rightarrow> string" where
  "lookup_grp k [] = []"
| "lookup_grp k ((j, s) # caps) = (if j = k then s else lookup_grp k caps)"

text \<open>A back reference matches the text of its group again (up to case under \<open>i\<close>).\<close>

definition same_char :: "bool \<Rightarrow> char \<Rightarrow> char \<Rightarrow> bool" where
  "same_char i c d = (if i then upper_char c = upper_char d else c = d)"

fun step_lit :: "bool \<Rightarrow> string \<Rightarrow> pos \<Rightarrow> pos list" where
  "step_lit ic [] st = [st]"
| "step_lit ic (c # cs) (Pos b [] i caps) = []"
| "step_lit ic (c # cs) (Pos b (d # ds) i caps) =
     concat (map (step_lit ic cs) (keep (same_char ic c d) (Pos (d # b) ds (i + 1) caps)))"

fun step_backref :: "bool \<Rightarrow> nat \<Rightarrow> pos \<Rightarrow> pos list" where
  "step_backref ic k (Pos b a i caps) = step_lit ic (lookup_grp k caps) (Pos b a i caps)"

fun dec_max :: "nat option \<Rightarrow> nat option" where
  "dec_max None = None"
| "dec_max (Some k) = Some (k - 1)"

fun rep_order :: "bool \<Rightarrow> pos list \<Rightarrow> pos \<Rightarrow> pos list" where
  "rep_order True more st = more @ [st]"
| "rep_order False more st = st # more"

text \<open>
  The quantifier \<open>{m,n}\<close> (\<open>n\<close> absent: unbounded) over the matcher \<open>f\<close> of its body,
  as ECMAScript's RepeatMatcher: the first \<open>m\<close> rounds are required; a later round that
  consumes nothing is dropped; a greedy quantifier prefers another round, a lazy one
  prefers to stop. The first argument bounds the number of rounds; a round past the
  required ones consumes a character, so the length of the text plus \<open>m\<close> is never
  reached.
\<close>

fun rep_iter :: "nat \<Rightarrow> (pos \<Rightarrow> pos list) \<Rightarrow> bool \<Rightarrow> nat \<Rightarrow> nat option \<Rightarrow> pos \<Rightarrow> pos list"
  and rep_round :: "int \<Rightarrow> nat \<Rightarrow> (pos \<Rightarrow> pos list) \<Rightarrow> bool \<Rightarrow> nat option \<Rightarrow> pos \<Rightarrow> pos list"
  and rep_next :: "bool \<Rightarrow> nat \<Rightarrow> (pos \<Rightarrow> pos list) \<Rightarrow> bool \<Rightarrow> nat option \<Rightarrow> pos \<Rightarrow> pos list"
where
  "rep_iter fuel f g m (Some 0) st = [st]"
| "rep_iter 0 f g 0 n st = [st]"
| "rep_iter 0 f g (Suc m) n st = []"
| "rep_iter (Suc fuel) f g (Suc m) n st =
     concat (map (rep_iter fuel f g m (dec_max n)) (f st))"
| "rep_iter (Suc fuel) f g 0 n st =
     rep_order g (concat (map (rep_round (idx st) fuel f g n) (f st))) st"
| "rep_round i fuel f g n st' = rep_next (idx st' = i) fuel f g n st'"
| "rep_next True fuel f g n st' = []"
| "rep_next False fuel f g n st' = rep_iter fuel f g 0 (dec_max n) st'"

fun rxm :: "rx \<Rightarrow> nat \<Rightarrow> pos \<Rightarrow> pos list" where
  "rxm (Cls p) fuel st = step_cls p st"
| "rxm Eps fuel st = [st]"
| "rxm (Seq r s) fuel st = concat (map (rxm s fuel) (rxm r fuel st))"
| "rxm (Alt r s) fuel st = rxm r fuel st @ rxm s fuel st"
| "rxm (Rep g m n r) fuel st = rep_iter fuel (rxm r fuel) g m n st"
| "rxm Bol fuel st = step_bol st"
| "rxm Eol fuel st = step_eol st"
| "rxm WordB fuel st = step_wordb st"
| "rxm (Grp k r) fuel st = map (close_grp k (idx st)) (rxm r fuel st)"
| "rxm (Backref ic k) fuel st = step_backref ic k st"

subsection \<open>Notation of the patterns\<close>

definition Chr :: "char \<Rightarrow> rx" where
  "Chr c = Cls (\<lambda>d. d = c)"

text \<open>A class under the \<open>i\<close> flag: a character matches when one of its case variants is
  in the class.\<close>

definition ci :: "(char \<Rightarrow> bool) \<Rightarrow> char \<Rightarrow> bool" where
  "ci p c = (p c \<or> p (upper_char c) \<or> p (lower_char c))"

definition Chr_i :: "char \<Rightarrow> rx" where
  "Chr_i c = Cls (ci (\<lambda>d. d = c))"

fun Seqs :: "rx list \<Rightarrow> rx" where
  "Seqs [] = Eps"
| "Seqs [r] = r"
| "Seqs (r # rs) = Seq r (Seqs rs)"

fun Alts :: "rx list \<Rightarrow> rx" where
  "Alts [] = Eps"
| "Alts [r] = r"
| "Alts (r # rs) = Alt r (Alts rs)"

definition Lit :: "string \<Rightarrow> rx" where
  "Lit s = Seqs (map Chr s)"

definition Lit_i :: "string \<Rightarrow> rx" where
  "Lit_i s = Seqs (map Chr_i s)"

definition Star :: "rx \<Rightarrow> rx" where
  "Star r = Rep True 0 None r"

definition Plus :: "rx \<Rightarrow> rx" where
  "Plus r = Rep True 1 None r"

definition Opt :: "rx \<Rightarrow> rx" where
  "Opt r = Rep True 0 (Some 1) r"

definition Star_lazy :: "rx \<Rightarrow> rx" where
  "Star_lazy r = Rep False 0 None r"

text \<open>\<open>r{m,n}\<close>, \<open>r{m,}\<close> and \<open>r{m}\<close>.\<close>

definition Range :: "nat \<Rightarrow> nat \<Rightarrow> rx \<Rightarrow> rx" where
  "Range m n r = Rep True m (Some n) r"

definition AtLeast :: "nat \<Rightarrow> rx \<Rightarrow> rx" where
  "AtLeast m r = Rep True m None r"

definition Times :: "nat \<Rightarrow> rx \<Rightarrow> rx" where
  "Times m r = Rep True m (Some m) r"

definition one_of :: "string \<Rightarrow> char \<Rightarrow> bool" where
  "one_of s c = (c \<in> set s)"

definition none_of :: "string \<Rightarrow> char \<Rightarrow> bool" where
  "none_of s c = (c \<notin> set s)"

subsection \<open>The methods that take a regular expression\<close>

text \<open>The largest number of required rounds of a quantifier of the pattern.\<close>

fun rep_min :: "rx \<Rightarrow> nat" where
  "rep_min (Seq r s) = max (rep_min r) (rep_min s)"
| "rep_min (Alt r s) = max (rep_min r) (rep_min s)"
| "rep_min (Rep g m n r) = max m (rep_min r)"
| "rep_min (Grp k r) = rep_min r"
| "rep_min r = 0"

definition fuel_for :: "rx \<Rightarrow> string \<Rightarrow> nat" where
  "fuel_for r s = Suc (length s + rep_min r)"

text \<open>What a scan of the text yields: a character no match covers, or a match with its
  captures.\<close>

datatype item = Skip char | Hit string "(nat \<times> string) list"

fun hit_of :: "pos \<Rightarrow> pos \<Rightarrow> item" where
  "hit_of (Pos b a i caps) (Pos b' a' i' caps') = Hit (take (nat (i' - i)) a) caps'"

text \<open>
  The scan of a global regular expression (\<open>match\<close> and \<open>replace\<close> with the \<open>g\<close> flag):
  at each position the match of the highest priority, if there is one; the scan goes on
  behind the match, and one character further when the match is empty. The first
  argument bounds the number of steps by the length of the text plus one.
\<close>

fun scan :: "nat \<Rightarrow> rx \<Rightarrow> nat \<Rightarrow> pos \<Rightarrow> item list"
  and scan_at :: "nat \<Rightarrow> rx \<Rightarrow> nat \<Rightarrow> pos \<Rightarrow> pos list \<Rightarrow> item list"
  and scan_on :: "bool \<Rightarrow> nat \<Rightarrow> rx \<Rightarrow> nat \<Rightarrow> pos \<Rightarrow> pos \<Rightarrow> item list"
where
  "scan 0 r fuel st = []"
| "scan (Suc k) r fuel st = scan_at k r fuel st (rxm r fuel st)"
| "scan_at k r fuel (Pos b [] i caps) [] = []"
| "scan_at k r fuel (Pos b (c # cs) i caps) [] = Skip c # scan k r fuel (Pos (c # b) cs (i + 1) caps)"
| "scan_at k r fuel st (st' # sts) = hit_of st st' # scan_on (idx st' = idx st) k r fuel st st'"
| "scan_on False k r fuel st (Pos b' a' i' caps') = scan k r fuel (Pos b' a' i' [])"
| "scan_on True k r fuel (Pos b [] i caps) st' = []"
| "scan_on True k r fuel (Pos b (c # cs) i caps) st' = Skip c # scan k r fuel (Pos (c # b) cs (i + 1) caps)"

definition scan_all :: "rx \<Rightarrow> string \<Rightarrow> item list" where
  "scan_all r s = scan (Suc (length s)) r (fuel_for r s) (Pos [] s 0 [])"

text \<open>\<open>s.match(r)\<close> for a global \<open>r\<close>: the matched texts (the empty list stands for
  \<open>null\<close>, which the program replaces by \<open>[]\<close>).\<close>

fun hits :: "item list \<Rightarrow> string list" where
  "hits [] = []"
| "hits (Skip c # xs) = hits xs"
| "hits (Hit m caps # xs) = m # hits xs"

definition match_all :: "rx \<Rightarrow> string \<Rightarrow> string list" where
  "match_all r s = hits (scan_all r s)"

text \<open>\<open>s.replace(r, f)\<close> for a global \<open>r\<close>; \<open>f\<close> builds the replacement from the captures.\<close>

fun replaced :: "((nat \<times> string) list \<Rightarrow> string) \<Rightarrow> item list \<Rightarrow> string" where
  "replaced f [] = []"
| "replaced f (Skip c # xs) = c # replaced f xs"
| "replaced f (Hit m caps # xs) = f caps @ replaced f xs"

definition replace_all :: "rx \<Rightarrow> ((nat \<times> string) list \<Rightarrow> string) \<Rightarrow> string \<Rightarrow> string" where
  "replace_all r f s = replaced f (scan_all r s)"

text \<open>The first match of the scan: \<open>r.exec(s)\<close> from index 0, \<open>s.match(r)\<close> for a regular
  expression that is not global, and \<open>r.test(s)\<close>.\<close>

fun first_hit :: "item list \<Rightarrow> (string \<times> (nat \<times> string) list) option" where
  "first_hit [] = None"
| "first_hit (Skip c # xs) = first_hit xs"
| "first_hit (Hit m caps # xs) = Some (m, caps)"

definition exec :: "rx \<Rightarrow> string \<Rightarrow> (string \<times> (nat \<times> string) list) option" where
  "exec r s = first_hit (scan_all r s)"

definition exec_grp :: "rx \<Rightarrow> nat \<Rightarrow> string \<Rightarrow> string option" where
  "exec_grp r k s = map_option (\<lambda>(m, caps). lookup_grp k caps) (exec r s)"

definition test :: "rx \<Rightarrow> string \<Rightarrow> bool" where
  "test r s = (exec r s \<noteq> None)"


text \<open>\<open>s.replace(r, f)\<close> for an \<open>r\<close> that is not global: the first match only.\<close>

fun unchanged :: "item list \<Rightarrow> string" where
  "unchanged [] = []"
| "unchanged (Skip c # xs) = c # unchanged xs"
| "unchanged (Hit m caps # xs) = m @ unchanged xs"

fun replaced_first :: "((nat \<times> string) list \<Rightarrow> string) \<Rightarrow> item list \<Rightarrow> string" where
  "replaced_first f [] = []"
| "replaced_first f (Skip c # xs) = c # replaced_first f xs"
| "replaced_first f (Hit m caps # xs) = f caps @ unchanged xs"

definition replace_first :: "rx \<Rightarrow> ((nat \<times> string) list \<Rightarrow> string) \<Rightarrow> string \<Rightarrow> string" where
  "replace_first r f s = replaced_first f (scan_all r s)"

subsection \<open>Characters the string syntax cannot hold\<close>

definition dquote :: char where "dquote = CHR 0x22"
definition squote :: char where "squote = CHR 0x27"
definition backtick :: char where "backtick = CHR 0x60"
definition backslash :: char where "backslash = CHR 0x5C"

section \<open>WebScraper: phone classification and confidence scores\<close>

text \<open>\<open>phone.replace(/[^\d]/g, '')\<close>\<close>

definition digits_only :: "string \<Rightarrow> string" where
  "digits_only phone = replace_all (Cls (\<lambda>c. \<not> is_digit c)) (\<lambda>caps. []) phone"

text \<open>\<open>/^1?(800|833|844|855|866|877|888)/\<close>\<close>

definition toll_free_rx :: rx where
  "toll_free_rx = Seqs [Bol, Opt (Chr CHR ''1''),
     Alts [Lit ''800'', Lit ''833'', Lit ''844'', Lit ''855'', Lit ''866'', Lit ''877'', Lit ''888'']]"

definition classifyPhoneType :: "string \<Rightarrow> string" where
  "classifyPhoneType phone =
     (let cleaned = digits_only phone in
      if test toll_free_rx cleaned then ''toll-free''
      else if length cleaned = 10 \<or> (length cleaned = 11 \<and> startsWith cleaned ''1'') then ''us-local''
      else if startsWith cleaned ''+'' then ''international''
      else ''other'')"

text \<open>\<open>/^[a-zA-Z]+\.[a-zA-Z]+@/\<close> and \<open>/^(info|contact|hello|support)@/\<close>\<close>

definition first_last_rx :: rx where
  "first_last_rx = Seqs [Bol, Plus (Cls is_alpha), Chr CHR ''.'', Plus (Cls is_alpha), Chr CHR ''@'']"

definition business_local_rx :: rx where
  "business_local_rx = Seqs [Bol, Alts [Lit ''info'', Lit ''contact'', Lit ''hello'', Lit ''support''], Chr CHR ''@'']"

text \<open>The scores are sums of the source's decimal constants, taken exactly.\<close>

definition calculateEmailConfidence :: "string \<Rightarrow> real" where
  "calculateEmailConfidence email =
     (let businessDomains = [''gmail.com'', ''outlook.com'', ''yahoo.com'', ''hotmail.com''];
          domain = nth_opt (split email CHR ''@'') 1;
          score = 5 / 10;
          score = (if \<not> (case domain of None \<Rightarrow> False | Some d \<Rightarrow> d \<in> set businessDomains)
                   then score + 2 / 10 else score);
          score = (if length email > 8 \<and> length email < 50 then score + 1 / 10 else score);
          score = (if test first_last_rx email then score + 2 / 10 else score);
          score = (if test business_local_rx email then score + 1 / 10 else score)
      in min score 1)"

text \<open>\<open>/^\+1\s\(\d{3}\)\s\d{3}-\d{4}$/\<close>, \<open>/^\(\d{3}\)\s\d{3}-\d{4}$/\<close> and \<open>/tel:/\<close>\<close>

definition us_format_rx :: rx where
  "us_format_rx = Seqs [Chr CHR ''('', Times 3 (Cls is_digit), Chr CHR '')'', Cls is_space,
     Times 3 (Cls is_digit), Chr CHR ''-'', Times 4 (Cls is_digit), Eol]"

definition plus1_format_rx :: rx where
  "plus1_format_rx = Seqs [Bol, Chr CHR ''+'', Chr CHR ''1'', Cls is_space, us_format_rx]"

definition std_format_rx :: rx where
  "std_format_rx = Seqs [Bol, us_format_rx]"

definition calculatePhoneConfidence :: "string \<Rightarrow> real" where
  "calculatePhoneConfidence phone =
     (let score = 5 / 10;
          score = (if test plus1_format_rx phone then score + 3 / 10 else score);
          score = (if test std_format_rx phone then score + 2 / 10 else score);
          score = (if test (Lit ''tel:'') phone then score + 1 / 10 else score);
          cleaned = digits_only phone;
          score = (if length cleaned = 10 \<or> length cleaned = 11 then score + 2 / 10 else score)
      in min score 1)"

text \<open>\<open>/^[A-Z][a-z]+$/\<close> and \<open>/^[A-Z]\.$/\<close>\<close>

definition capitalised_rx :: rx where
  "capitalised_rx = Seqs [Bol, Cls is_upper, Plus (Cls is_lower), Eol]"

definition initial_rx :: rx where
  "initial_rx = Seqs [Bol, Cls is_upper, Chr CHR ''.'', Eol]"

text \<open>The class declares \<open>calculateNameConfidence\<close> twice; the later declaration (the
  one below, with scores between 0 and 1) replaces the earlier one.\<close>

definition calculateNameConfidence :: "string \<Rightarrow> real" where
  "calculateNameConfidence name =
     (let score = 5 / 10;
          parts = split_ws (trim name);
          score = (if length parts \<ge> 2 then score + 2 / 10 else score);
          score = (if length parts \<ge> 3 then score + 1 / 10 else score);
          score = (if length name > 6 \<and> length name < 40 then score + 1 / 10 else score);
          score = (if list_all (\<lambda>part. test capitalised_rx part \<or> test initial_rx part) parts
                   then score + 2 / 10 else score)
      in min score 1)"

section \<open>WebScraper: e-mail addresses\<close>

subsection \<open>Validation\<close>

text \<open>\<open>/^[^\s@]+@[^\s@]+\.[^\s@]+$/\<close>\<close>

definition no_space_at :: "char \<Rightarrow> bool" where
  "no_space_at c = (\<not> is_space c \<and> c \<noteq> CHR ''@'')"

definition emailRegex :: rx where
  "emailRegex = Seqs [Bol, Plus (Cls no_space_at), Chr CHR ''@'', Plus (Cls no_space_at),
     Chr CHR ''.'', Plus (Cls no_space_at), Eol]"

definition isValidEmail :: "string \<Rightarrow> bool" where
  "isValidEmail email =
     (test emailRegex email \<and>
      length email \<le> 254 \<and>
      \<not> startsWith email ''.'' \<and>
      \<not> endsWith email ''.'' \<and>
      \<not> includes_str email ''..'' \<and>
      length (split email CHR ''@'') = 2)"

text \<open>\<open>/^[a-z]{2,6}$/i\<close>\<close>

definition tld_2_6_rx :: rx where
  "tld_2_6_rx = Seqs [Bol, Range 2 6 (Cls is_alpha), Eol]"

text \<open>\<open>email.split('@')[1]\<close> is \<open>undefined\<close> when there is no \<open>@\<close>; \<open>!domain\<close> also holds
  for the empty string.\<close>

definition isValidEmailDomain :: "string \<Rightarrow> bool" where
  "isValidEmailDomain email =
     (case nth_opt (split email CHR ''@'') 1 of
        None \<Rightarrow> False
      | Some domain \<Rightarrow>
          if domain = [] then False
          else if length domain < 3 \<or> length domain > 255 then False
          else if \<not> includes_str domain ''.'' then False
          else if startsWith domain ''.'' \<or> endsWith domain ''.'' then False
          else if includes_str domain ''..'' then False
          else let tld = last (split domain CHR ''.'') in
            if tld = [] \<or> length tld < 2 \<or> length tld > 6 then False
            else if \<not> test tld_2_6_rx tld then False
            else True)"

subsection \<open>False positives\<close>

definition email_falsePositives :: "string list" where
  "email_falsePositives =
     [''test@example.com'', ''user@example.com'', ''admin@example.com'',
      ''info@example.com'', ''support@example.com'', ''contact@example.com'',
      ''noreply@example.com'', ''no-reply@example.com'', ''hello@example.com'',
      ''mail@example.com'', ''email@example.com'', ''name@example.com'',
      ''test@test.com'', ''admin@test.com'', ''user@test.com'',
      ''test@localhost'', ''admin@localhost'', ''user@localhost'',
      ''test@domain.com'', ''user@domain.com'', ''example@domain.com'',
      ''your.email@example.com'', ''youremail@example.com'',
      ''jane@example.com'', ''john@example.com'', ''doe@example.com'',
      ''jane.doe@example.com'', ''john.doe@example.com'', ''john.smith@example.com'',
      ''info@yoursite.com'', ''contact@yoursite.com'', ''admin@yoursite.com'',
      ''info@yourcompany.com'', ''contact@yourcompany.com'',
      ''info@company.com'', ''contact@company.com'',
      ''share@facebook.com'', ''like@facebook.com'', ''post@facebook.com'',
      ''tweet@twitter.com'', ''share@twitter.com'', ''follow@twitter.com'']"

definition domainFalsePositives :: "string list" where
  "domainFalsePositives =
     [''example.com'', ''example.org'', ''example.net'',
      ''test.com'', ''test.org'', ''test.net'',
      ''domain.com'', ''yourdomain.com'', ''yoursite.com'',
      ''company.com'', ''yourcompany.com'', ''mycompany.com'',
      ''website.com'', ''yourwebsite.com'',
      ''sample.com'', ''demo.com'', ''localhost'', ''local'',
      ''tempuri.org'', ''tempuri.com'',
      ''dev.local'', ''test.local'', ''staging.com'',
      ''dev.example.com'', ''test.example.com'']"

definition email_placeholderWords :: "string list" where
  "email_placeholderWords =
     [''lorem'', ''ipsum'', ''placeholder'', ''sample'', ''test'', ''dummy'', ''fake'', ''mock'',
      ''default'', ''example'', ''demo'', ''temp'', ''temporary'', ''invalid'',
      ''enter'', ''insert'', ''put'', ''type'', ''write'', ''click'']"

text \<open>\<open>/(.)\1{4,}/\<close>\<close>

definition repeated_char_rx :: rx where
  "repeated_char_rx = Seq (Grp 1 (Cls is_dot)) (AtLeast 4 (Backref False 1))"

definition not_at :: "char \<Rightarrow> bool" where
  "not_at c = (c \<noteq> CHR ''@'')"

definition not_period :: "char \<Rightarrow> bool" where
  "not_period c = (c \<noteq> CHR ''.'')"

text \<open>The list \<open>suspiciousPatterns\<close>, in the order of the source. Under the \<open>i\<close> flag a
  literal is matched up to case (\<open>Lit_i\<close>); a class that holds both cases of its letters
  is as without the flag.\<close>

definition email_suspiciousPatterns :: "rx list" where
  \<open>email_suspiciousPatterns =
     [ \<comment> \<open>\<open>/^(no-?reply|do-?not-?reply|noreply)@/i\<close>\<close>
       Seqs [Bol, Alts [Seqs [Lit_i ''no'', Opt (Chr CHR ''-''), Lit_i ''reply''],
                        Seqs [Lit_i ''do'', Opt (Chr CHR ''-''), Lit_i ''not'', Opt (Chr CHR ''-''), Lit_i ''reply''],
                        Lit_i ''noreply''], Chr CHR ''@''],
       \<comment> \<open>\<open>/^(bounce|mailer-daemon|postmaster)@/i\<close>\<close>
       Seqs [Bol, Alts [Lit_i ''bounce'', Lit_i ''mailer-daemon'', Lit_i ''postmaster''], Chr CHR ''@''],
       \<comment> \<open>\<open>/^(info|support|admin|webmaster|postmaster)@.*\.(test|local|localhost)$/i\<close>\<close>
       Seqs [Bol, Alts [Lit_i ''info'', Lit_i ''support'', Lit_i ''admin'', Lit_i ''webmaster'', Lit_i ''postmaster''],
             Chr CHR ''@'', Star (Cls is_dot), Chr CHR ''.'',
             Alts [Lit_i ''test'', Lit_i ''local'', Lit_i ''localhost''], Eol],
       \<comment> \<open>\<open>/^(test|admin|user|demo)@(test|demo|local|localhost)\./i\<close>\<close>
       Seqs [Bol, Alts [Lit_i ''test'', Lit_i ''admin'', Lit_i ''user'', Lit_i ''demo''], Chr CHR ''@'',
             Alts [Lit_i ''test'', Lit_i ''demo'', Lit_i ''local'', Lit_i ''localhost''], Chr CHR ''.''],
       \<comment> \<open>\<open>/^\d+@\d+\.\d+$/\<close>\<close>
       Seqs [Bol, Plus (Cls is_digit), Chr CHR ''@'', Plus (Cls is_digit), Chr CHR ''.'', Plus (Cls is_digit), Eol],
       \<comment> \<open>\<open>/^[a-z]@[a-z]\.[a-z]{2,3}$/i\<close>\<close>
       Seqs [Bol, Cls (ci is_lower), Chr CHR ''@'', Cls (ci is_lower), Chr CHR ''.'', Range 2 3 (Cls (ci is_lower)), Eol],
       \<comment> \<open>\<open>/^.{1,2}@.{1,2}\./i\<close>\<close>
       Seqs [Bol, Range 1 2 (Cls is_dot), Chr CHR ''@'', Range 1 2 (Cls is_dot), Chr CHR ''.''],
       \<comment> \<open>\<open>/^[^@]+@[^.]+$/\<close>\<close>
       Seqs [Bol, Plus (Cls not_at), Chr CHR ''@'', Plus (Cls not_period), Eol],
       \<comment> \<open>\<open>/^[^@]{1,2}@.+/\<close>\<close>
       Seqs [Bol, Range 1 2 (Cls not_at), Chr CHR ''@'', Plus (Cls is_dot)],
       \<comment> \<open>\<open>/^.+@[^.]{1,2}\..+/\<close>\<close>
       Seqs [Bol, Plus (Cls is_dot), Chr CHR ''@'', Range 1 2 (Cls not_period), Chr CHR ''.'', Plus (Cls is_dot)],
       \<comment> \<open>\<open>/[<>"`']/\<close>\<close>
       Cls (one_of [CHR ''<'', CHR ''>'', dquote, backtick, squote]),
       \<comment> \<open>\<open>/^\d+[a-z]*@.+/\<close>\<close>
       Seqs [Bol, Plus (Cls is_digit), Star (Cls is_lower), Chr CHR ''@'', Plus (Cls is_dot)],
       \<comment> \<open>\<open>/^[a-z]+\d+@example\./i\<close>\<close>
       Seqs [Bol, Plus (Cls (ci is_lower)), Plus (Cls is_digit), Chr CHR ''@'', Lit_i ''example'', Chr CHR ''.''],
       \<comment> \<open>\<open>/^(contact|info|support)@(company|business|website|site)\./i\<close>\<close>
       Seqs [Bol, Alts [Lit_i ''contact'', Lit_i ''info'', Lit_i ''support''], Chr CHR ''@'',
             Alts [Lit_i ''company'', Lit_i ''business'', Lit_i ''website'', Lit_i ''site''], Chr CHR ''.''],
       \<comment> \<open>\<open>/^email@(company|business|website|site)\./i\<close>\<close>
       Seqs [Bol, Lit_i ''email'', Chr CHR ''@'',
             Alts [Lit_i ''company'', Lit_i ''business'', Lit_i ''website'', Lit_i ''site''], Chr CHR ''.''],
       \<comment> \<open>\<open>/^(your|my)(email|mail|address)@/i\<close>\<close>
       Seqs [Bol, Alts [Lit_i ''your'', Lit_i ''my''], Alts [Lit_i ''email'', Lit_i ''mail'', Lit_i ''address''], Chr CHR ''@''],
       \<comment> \<open>\<open>/@[^.]+\.(test|local|invalid|localhost|example)$/i\<close>\<close>
       Seqs [Chr CHR ''@'', Plus (Cls not_period), Chr CHR ''.'',
             Alts [Lit_i ''test'', Lit_i ''local'', Lit_i ''invalid'', Lit_i ''localhost'', Lit_i ''example''], Eol] ]\<close>

text \<open>\<open>/^[a-z]+$/i\<close>\<close>

definition letters_rx :: rx where
  "letters_rx = Seqs [Bol, Plus (Cls (ci is_lower)), Eol]"

definition invalidTlds :: "string list" where
  "invalidTlds = [''test'', ''local'', ''localhost'', ''invalid'', ''example'']"

text \<open>For a string argument, \<open>!email\<close> is the test for the empty string. The checks are in
  the order of the source, each returning \<open>true\<close> at once.\<close>

definition isEmailFalsePositive :: "string \<Rightarrow> bool" where
  "isEmailFalsePositive email =
     (if email = [] then True
      else let lowerEmail = toLowerCase email in
        case nth_opt (split email CHR ''@'') 1 of
          None \<Rightarrow> True
        | Some domain \<Rightarrow>
            if domain = [] then True
            else if lowerEmail \<in> set email_falsePositives then True
            else if domain \<in> set domainFalsePositives then True
            else if list_ex (\<lambda>word. includes_str lowerEmail word) email_placeholderWords then True
            else if includes_str lowerEmail ''..'' \<or> startsWith lowerEmail ''.'' \<or> endsWith lowerEmail ''.'' then True
            else if includes_str lowerEmail ''@.'' \<or> includes_str lowerEmail ''.@'' then True
            else if includes_str domain ''..'' \<or> startsWith domain ''.'' \<or> endsWith domain ''.'' then True
            else if test repeated_char_rx lowerEmail then True
            else if list_ex (\<lambda>pattern. test pattern lowerEmail) email_suspiciousPatterns then True
            else let tld = last (split domain CHR ''.'') in
              if length tld < 2 \<or> length tld > 6 then True
              else if \<not> test letters_rx tld then True
              else if tld \<in> set invalidTlds then True
              else False)"

subsection \<open>De-obfuscation\<close>

definition ws_star :: rx where
  "ws_star = Star (Cls is_space)"

definition ws_plus :: rx where
  "ws_plus = Plus (Cls is_space)"

text \<open>The seven replacements of \<open>cleanObfuscatedEmail\<close>, in their order:
  \<open>/\s*\[\s*at\s*\]\s*/gi\<close>, \<open>/\s*\[\s*dot\s*\]\s*/gi\<close>, \<open>/\s*\(\s*@\s*\)\s*/gi\<close>,
  \<open>/\s*\(\s*\.\s*\)\s*/gi\<close>, \<open>/\s+@\s+/g\<close>, \<open>/\s+\.\s+/g\<close> and \<open>/\s/g\<close>.\<close>

definition bracket_at_rx :: rx where
  "bracket_at_rx = Seqs [ws_star, Chr CHR ''['', ws_star, Lit_i ''at'', ws_star, Chr CHR '']'', ws_star]"

definition bracket_dot_rx :: rx where
  "bracket_dot_rx = Seqs [ws_star, Chr CHR ''['', ws_star, Lit_i ''dot'', ws_star, Chr CHR '']'', ws_star]"

definition paren_at_rx :: rx where
  "paren_at_rx = Seqs [ws_star, Chr CHR ''('', ws_star, Chr CHR ''@'', ws_star, Chr CHR '')'', ws_star]"

definition paren_dot_rx :: rx where
  "paren_dot_rx = Seqs [ws_star, Chr CHR ''('', ws_star, Chr CHR ''.'', ws_star, Chr CHR '')'', ws_star]"

definition spaced_at_rx :: rx where
  "spaced_at_rx = Seqs [ws_plus, Chr CHR ''@'', ws_plus]"

definition spaced_dot_rx :: rx where
  "spaced_dot_rx = Seqs [ws_plus, Chr CHR ''.'', ws_plus]"

definition cleanObfuscatedEmail :: "string \<Rightarrow> string" where
  "cleanObfuscatedEmail email =
     replace_all (Cls is_space) (\<lambda>caps. [])
      (replace_all spaced_dot_rx (\<lambda>caps. ''.'')
        (replace_all spaced_at_rx (\<lambda>caps. ''@'')
          (replace_all paren_dot_rx (\<lambda>caps. ''.'')
            (replace_all paren_at_rx (\<lambda>caps. ''@'')
              (replace_all bracket_dot_rx (\<lambda>caps. ''.'')
                (replace_all bracket_at_rx (\<lambda>caps. ''@'') email))))))"

subsection \<open>The patterns of \<open>extractEmails\<close>\<close>

text \<open>\<open>[A-Za-z0-9._%+-]\<close>, \<open>[A-Za-z0-9.-]\<close> and \<open>[A-Z|a-z]\<close> (the bar is a member of the
  class).\<close>

definition local_cls :: "char \<Rightarrow> bool" where
  "local_cls c = (is_alpha c \<or> is_digit c \<or> one_of ''._%+-'' c)"

definition domain_cls :: "char \<Rightarrow> bool" where
  "domain_cls c = (is_alpha c \<or> is_digit c \<or> one_of ''.-'' c)"

definition tld_cls :: "char \<Rightarrow> bool" where
  "tld_cls c = (is_alpha c \<or> c = CHR ''|'')"

text \<open>\<open>[A-Za-z0-9._%+-]+@[A-Za-z0-9.-]+\.[A-Z|a-z]{2,}\<close>\<close>

definition email_core_rx :: rx where
  "email_core_rx = Seqs [Plus (Cls local_cls), Chr CHR ''@'', Plus (Cls domain_cls), Chr CHR ''.'',
     AtLeast 2 (Cls tld_cls)]"

text \<open>
  \<open>EMAIL_REGEX_STRING\<close> is a string literal, so its \<open>\x..\<close> escapes are characters of the
  pattern: in the first class of the quoted local part \<open>\x5d\<close> is a bare \<open>]\<close>, which
  closes the class after the range \<open>\x23-\x5b\<close>; the hyphen, \<open>\x7f\<close> and the \<open>]\<close> that
  follow are literal characters. The pattern is compiled with the \<open>i\<close> flag.
\<close>

definition atext :: "char \<Rightarrow> bool" where
  "atext c = (is_lower c \<or> is_digit c \<or> one_of ''!#$%&*+/=?^_{|}~-'' c \<or> c = squote \<or> c = backtick)"

definition qtext_head :: "char \<Rightarrow> bool" where
  "qtext_head c = ((CHR 0x01 \<le> c \<and> c \<le> CHR 0x08) \<or> c = CHR 0x0B \<or> c = CHR 0x0C \<or>
     (CHR 0x0E \<le> c \<and> c \<le> CHR 0x1F) \<or> c = CHR 0x21 \<or> (CHR 0x23 \<le> c \<and> c \<le> CHR 0x5B))"

definition quoted_pair :: "char \<Rightarrow> bool" where
  "quoted_pair c = ((CHR 0x01 \<le> c \<and> c \<le> CHR 0x09) \<or> c = CHR 0x0B \<or> c = CHR 0x0C \<or>
     (CHR 0x0E \<le> c \<and> c \<le> CHR 0x7F))"

definition dtext :: "char \<Rightarrow> bool" where
  "dtext c = ((CHR 0x01 \<le> c \<and> c \<le> CHR 0x08) \<or> c = CHR 0x0B \<or> c = CHR 0x0C \<or>
     (CHR 0x0E \<le> c \<and> c \<le> CHR 0x1F) \<or> (CHR 0x21 \<le> c \<and> c \<le> CHR 0x5A) \<or>
     (CHR 0x53 \<le> c \<and> c \<le> CHR 0x7F))"

definition let_dig :: "char \<Rightarrow> bool" where
  "let_dig c = (is_lower c \<or> is_digit c)"

definition let_dig_hyp :: "char \<Rightarrow> bool" where
  "let_dig_hyp c = (is_lower c \<or> is_digit c \<or> c = CHR ''-'')"

text \<open>\<open>[a-z0-9](?:[a-z0-9-]*[a-z0-9])?\<close>\<close>

definition label_rx :: rx where
  "label_rx = Seq (Cls (ci let_dig)) (Opt (Seq (Star (Cls (ci let_dig_hyp))) (Cls (ci let_dig))))"

text \<open>\<open>25[0-5]|2[0-4][0-9]|[01]?[0-9][0-9]?\<close>\<close>

definition octet_rx :: rx where
  "octet_rx = Alts [Seq (Lit ''25'') (Cls (\<lambda>c. CHR ''0'' \<le> c \<and> c \<le> CHR ''5'')),
     Seqs [Chr CHR ''2'', Cls (\<lambda>c. CHR ''0'' \<le> c \<and> c \<le> CHR ''4''), Cls is_digit],
     Seqs [Opt (Cls (one_of ''01'')), Cls is_digit, Opt (Cls is_digit)]]"

definition EMAIL_REGEX_GLOBAL :: rx where
  "EMAIL_REGEX_GLOBAL =
     Seqs [
       Alt (Seq (Plus (Cls (ci atext))) (Star (Seq (Chr CHR ''.'') (Plus (Cls (ci atext))))))
           (Seqs [Chr dquote,
                  Star (Alt (Seqs [Cls (ci qtext_head), Chr CHR ''-'', Chr CHR 0x7F, Chr CHR '']''])
                            (Seq (Chr backslash) (Cls (ci quoted_pair)))),
                  Chr dquote]),
       Chr CHR ''@'',
       Alt (Seq (Plus (Seq label_rx (Chr CHR ''.''))) label_rx)
           (Seqs [Chr CHR ''['',
                  Times 3 (Seq octet_rx (Chr CHR ''.'')),
                  Alt octet_rx
                      (Seqs [Star (Cls (ci let_dig_hyp)), Cls (ci let_dig), Chr CHR '':'',
                             Plus (Alt (Cls (ci dtext)) (Seq (Chr backslash) (Cls (ci quoted_pair))))]),
                  Chr CHR '']''])]"

definition emailPatterns :: "rx list" where
  \<open>emailPatterns =
     [ EMAIL_REGEX_GLOBAL,
       \<comment> \<open>\<open>/\b[A-Za-z0-9._%+-]+@[A-Za-z0-9.-]+\.[A-Z|a-z]{2,}\b/g\<close>\<close>
       Seqs [WordB, email_core_rx, WordB],
       \<comment> \<open>\<open>/\b[A-Za-z0-9._%+-]+\s*\[\s*at\s*\]\s*[A-Za-z0-9.-]+\s*\[\s*dot\s*\]\s*[A-Z|a-z]{2,}\b/gi\<close>\<close>
       Seqs [WordB, Plus (Cls local_cls), ws_star, Chr CHR ''['', ws_star, Lit_i ''at'', ws_star, Chr CHR '']'', ws_star,
             Plus (Cls domain_cls), ws_star, Chr CHR ''['', ws_star, Lit_i ''dot'', ws_star, Chr CHR '']'', ws_star,
             AtLeast 2 (Cls tld_cls), WordB],
       \<comment> \<open>\<open>/\b[A-Za-z0-9._%+-]+\s*\(\s*at\s*\)\s*[A-Za-z0-9.-]+\s*\(\s*dot\s*\)\s*[A-Z|a-z]{2,}\b/gi\<close>\<close>
       Seqs [WordB, Plus (Cls local_cls), ws_star, Chr CHR ''('', ws_star, Lit_i ''at'', ws_star, Chr CHR '')'', ws_star,
             Plus (Cls domain_cls), ws_star, Chr CHR ''('', ws_star, Lit_i ''dot'', ws_star, Chr CHR '')'', ws_star,
             AtLeast 2 (Cls tld_cls), WordB],
       \<comment> \<open>\<open>/\b[A-Za-z0-9._%+-]+\s+at\s+[A-Za-z0-9.-]+\s+dot\s+[A-Z|a-z]{2,}\b/gi\<close>\<close>
       Seqs [WordB, Plus (Cls local_cls), ws_plus, Lit_i ''at'', ws_plus,
             Plus (Cls domain_cls), ws_plus, Lit_i ''dot'', ws_plus, AtLeast 2 (Cls tld_cls), WordB],
       \<comment> \<open>\<open>/\b[A-Za-z0-9._%+-]+&#64;[A-Za-z0-9.-]+&#46;[A-Z|a-z]{2,}\b/gi\<close>\<close>
       Seqs [WordB, Plus (Cls local_cls), Lit ''&#64;'', Plus (Cls domain_cls), Lit ''&#46;'',
             AtLeast 2 (Cls tld_cls), WordB],
       \<comment> \<open>\<open>/\b[A-Za-z0-9._%+-]+&at;[A-Za-z0-9.-]+&dot;[A-Z|a-z]{2,}\b/gi\<close>\<close>
       Seqs [WordB, Plus (Cls local_cls), Chr CHR ''&'', Lit_i ''at'', Chr CHR '';'', Plus (Cls domain_cls),
             Chr CHR ''&'', Lit_i ''dot'', Chr CHR '';'', AtLeast 2 (Cls tld_cls), WordB],
       \<comment> \<open>\<open>/\b[A-Za-z0-9._%+-]+\s+@\s+[A-Za-z0-9.-]+\s+\.\s+[A-Z|a-z]{2,}\b/g\<close>\<close>
       Seqs [WordB, Plus (Cls local_cls), ws_plus, Chr CHR ''@'', ws_plus,
             Plus (Cls domain_cls), ws_plus, Chr CHR ''.'', ws_plus, AtLeast 2 (Cls tld_cls), WordB],
       \<comment> \<open>\<open>/\b[A-Za-z0-9._%+-]+\s*\{\s*@\s*\}\s*[A-Za-z0-9.-]+\s*\{\s*\.\s*\}\s*[A-Z|a-z]{2,}\b/gi\<close>\<close>
       Seqs [WordB, Plus (Cls local_cls), ws_star, Chr CHR ''{'', ws_star, Chr CHR ''@'', ws_star, Chr CHR ''}'', ws_star,
             Plus (Cls domain_cls), ws_star, Chr CHR ''{'', ws_star, Chr CHR ''.'', ws_star, Chr CHR ''}'', ws_star,
             AtLeast 2 (Cls tld_cls), WordB] ]\<close>

text \<open>The quote classes \<open>['""]\<close>, \<open>['"]\<close> and their complements.\<close>

definition quote_cls :: "char \<Rightarrow> bool" where
  "quote_cls c = (c = squote \<or> c = dquote)"

definition not_quote :: "char \<Rightarrow> bool" where
  "not_quote c = (\<not> quote_cls c)"

definition not_quote_qmark :: "char \<Rightarrow> bool" where
  "not_quote_qmark c = (\<not> quote_cls c \<and> c \<noteq> CHR ''?'')"

text \<open>\<open>/href\s*=\s*['""]([^'""]+)['"]/gi\<close>, and the same without \<open>g\<close> to read group 1.\<close>

definition linkRegex :: rx where
  "linkRegex = Seqs [Lit_i ''href'', ws_star, Chr CHR ''='', ws_star, Cls quote_cls,
     Grp 1 (Plus (Cls not_quote)), Cls quote_cls]"

definition add_url :: "string list \<Rightarrow> string \<Rightarrow> string list" where
  "add_url urls m = (case exec_grp linkRegex 1 m of None \<Rightarrow> urls | Some url \<Rightarrow> urls @ [url])"

definition extractUrlsFromHtml :: "string \<Rightarrow> string list" where
  "extractUrlsFromHtml html = foldl add_url [] (match_all linkRegex html)"

text \<open>\<open>/^mailto:/i\<close>\<close>

definition EMAIL_URL_PREFIX_REGEX :: rx where
  "EMAIL_URL_PREFIX_REGEX = Seq Bol (Lit_i ''mailto:'')"

definition add_url_email :: "string list \<Rightarrow> string \<Rightarrow> string list" where
  "add_url_email emails url =
     (if url = [] \<or> \<not> test EMAIL_URL_PREFIX_REGEX url then emails
      else let email = trim (hd (split (replace_first EMAIL_URL_PREFIX_REGEX (\<lambda>caps. []) url) CHR ''?''))
           in if isValidEmail email then emails @ [email] else emails)"

definition emailsFromUrls :: "string list \<Rightarrow> string list" where
  "emailsFromUrls urls = foldl add_url_email [] urls"

text \<open>\<open>/href\s*=\s*['"]\s*mailto:([^'"?]+)(?:\?[^'"]*)?['"]/gi\<close> and
  \<open>/mailto:([^'"?]+)/i\<close>\<close>

definition mailtoRegex :: rx where
  "mailtoRegex = Seqs [Lit_i ''href'', ws_star, Chr CHR ''='', ws_star, Cls quote_cls, ws_star,
     Lit_i ''mailto:'', Plus (Cls not_quote_qmark),
     Opt (Seq (Chr CHR ''?'') (Star (Cls not_quote))), Cls quote_cls]"

definition mailto_target_rx :: rx where
  "mailto_target_rx = Seq (Lit_i ''mailto:'') (Grp 1 (Plus (Cls not_quote_qmark)))"

definition opt_quote :: rx where
  "opt_quote = Opt (Cls quote_cls)"

definition jsEmailPatterns :: "rx list" where
  \<open>jsEmailPatterns =
     [ \<comment> \<open>\<open>/['""]([A-Za-z0-9._%+-]+@[A-Za-z0-9.-]+\.[A-Z|a-z]{2,})['"]/g\<close>\<close>
       Seqs [Cls quote_cls, email_core_rx, Cls quote_cls],
       \<comment> \<open>\<open>/email\s*[:=]\s*['""]?([A-Za-z0-9._%+-]+@[A-Za-z0-9.-]+\.[A-Z|a-z]{2,})['""]?/gi\<close>\<close>
       Seqs [Lit_i ''email'', ws_star, Cls (one_of '':=''), ws_star, opt_quote, email_core_rx, opt_quote],
       \<comment> \<open>\<open>/contact\s*[:=]\s*['""]?([A-Za-z0-9._%+-]+@[A-Za-z0-9.-]+\.[A-Z|a-z]{2,})['""]?/gi\<close>\<close>
       Seqs [Lit_i ''contact'', ws_star, Cls (one_of '':=''), ws_star, opt_quote, email_core_rx, opt_quote],
       \<comment> \<open>\<open>/data-email\s*=\s*['""]([A-Za-z0-9._%+-]+@[A-Za-z0-9.-]+\.[A-Z|a-z]{2,})['"]/gi\<close>\<close>
       Seqs [Lit_i ''data-email'', ws_star, Chr CHR ''='', ws_star, Cls quote_cls, email_core_rx, Cls quote_cls],
       \<comment> \<open>\<open>/var\s+\w*email\w*\s*=\s*['""]([A-Za-z0-9._%+-]+@[A-Za-z0-9.-]+\.[A-Z|a-z]{2,})['"]/gi\<close>\<close>
       Seqs [Lit_i ''var'', ws_plus, Star (Cls is_word), Lit_i ''email'', Star (Cls is_word), ws_star,
             Chr CHR ''='', ws_star, Cls quote_cls, email_core_rx, Cls quote_cls] ]\<close>

text \<open>\<open>/([A-Za-z0-9._%+-]+@[A-Za-z0-9.-]+\.[A-Z|a-z]{2,})/\<close> and
  \<open>/"?([A-Za-z0-9._%+-]+@[A-Za-z0-9.-]+\.[A-Z|a-z]{2,})"?/\<close>\<close>

definition js_inner_rx :: rx where
  "js_inner_rx = Grp 1 email_core_rx"

definition schema_inner_rx :: rx where
  "schema_inner_rx = Seqs [Opt (Chr dquote), Grp 1 email_core_rx, Opt (Chr dquote)]"

definition email_schemaPatterns :: "rx list" where
  \<open>email_schemaPatterns =
     [ \<comment> \<open>\<open>/"email":\s*"([A-Za-z0-9._%+-]+@[A-Za-z0-9.-]+\.[A-Z|a-z]{2,})"/gi\<close>\<close>
       Seqs [Chr dquote, Lit_i ''email'', Chr dquote, Chr CHR '':'', ws_star, Chr dquote, email_core_rx, Chr dquote],
       \<comment> \<open>\<open>/"contactPoint":[^}]*"email":\s*"([A-Za-z0-9._%+-]+@[A-Za-z0-9.-]+\.[A-Z|a-z]{2,})"/gi\<close>\<close>
       Seqs [Chr dquote, Lit_i ''contactPoint'', Chr dquote, Chr CHR '':'', Star (Cls (\<lambda>c. c \<noteq> CHR ''}'')),
             Chr dquote, Lit_i ''email'', Chr dquote, Chr CHR '':'', ws_star, Chr dquote, email_core_rx, Chr dquote],
       \<comment> \<open>\<open>/itemprop\s*=\s*['""]email['""][^>]*content\s*=\s*['""]([A-Za-z0-9._%+-]+@[A-Za-z0-9.-]+\.[A-Z|a-z]{2,})['"]/gi\<close>\<close>
       Seqs [Lit_i ''itemprop'', ws_star, Chr CHR ''='', ws_star, Cls quote_cls, Lit_i ''email'', Cls quote_cls,
             Star (Cls (\<lambda>c. c \<noteq> CHR ''>'')), Lit_i ''content'', ws_star, Chr CHR ''='', ws_star, Cls quote_cls,
             email_core_rx, Cls quote_cls] ]\<close>

subsection \<open>\<open>extractEmails\<close>\<close>

text \<open>The loop over \<open>emailPatterns\<close> and over the matches of each in the text; the
  functions below are the bodies of the two \<open>forEach\<close> callbacks, with the set \<open>emails\<close>
  passed through.\<close>

definition add_text_match :: "string list \<Rightarrow> string \<Rightarrow> string list" where
  "add_text_match emails email =
     (let cleanEmail = cleanObfuscatedEmail email in
      if cleanEmail \<noteq> [] \<and> isValidEmail cleanEmail
      then set_add emails (toLowerCase cleanEmail) else emails)"

definition add_text_pattern :: "string \<Rightarrow> string list \<Rightarrow> rx \<Rightarrow> string list" where
  "add_text_pattern text emails pattern = foldl add_text_match emails (match_all pattern text)"

definition emails_from_text :: "string \<Rightarrow> string list" where
  "emails_from_text text = foldl (add_text_pattern text) [] emailPatterns"

text \<open>The block \<open>if (html) { ... }\<close>: the \<open>mailto:\<close> URLs, the \<open>mailto:\<close> links, the
  script and data attributes, and the structured data. \<open>add_lower\<close> is
  \<open>emails.add(email.toLowerCase())\<close>; \<open>add_if_valid\<close> guards it with \<open>isValidEmail\<close>.\<close>

definition add_lower :: "string list \<Rightarrow> string \<Rightarrow> string list" where
  "add_lower emails email = set_add emails (toLowerCase email)"

definition add_if_valid :: "string list \<Rightarrow> string \<Rightarrow> string list" where
  "add_if_valid emails email = (if isValidEmail email then add_lower emails email else emails)"

definition add_mailto_match :: "string list \<Rightarrow> string \<Rightarrow> string list" where
  "add_mailto_match emails m =
     (case exec_grp mailto_target_rx 1 m of
        None \<Rightarrow> emails
      | Some g \<Rightarrow> add_if_valid emails (trim g))"

definition add_inner_match :: "rx \<Rightarrow> string list \<Rightarrow> string \<Rightarrow> string list" where
  "add_inner_match inner emails m =
     (case exec_grp inner 1 m of
        None \<Rightarrow> emails
      | Some g \<Rightarrow> add_if_valid emails g)"

definition add_html_pattern :: "rx \<Rightarrow> string \<Rightarrow> string list \<Rightarrow> rx \<Rightarrow> string list" where
  "add_html_pattern inner html emails pattern =
     foldl (add_inner_match inner) emails (match_all pattern html)"

definition emails_from_html :: "string list \<Rightarrow> string \<Rightarrow> string list" where
  "emails_from_html emails html =
     foldl (add_html_pattern schema_inner_rx html)
       (foldl (add_html_pattern js_inner_rx html)
         (foldl add_mailto_match
           (foldl add_lower emails (emailsFromUrls (extractUrlsFromHtml html)))
           (match_all mailtoRegex html))
         jsEmailPatterns)
       email_schemaPatterns"

text \<open>\<open>emails_found\<close> is the set \<open>emails\<close> when the filtering starts.\<close>

definition emails_found :: "string \<Rightarrow> string \<Rightarrow> string list" where
  "emails_found text html =
     (if html \<noteq> [] then emails_from_html (emails_from_text text) html
      else emails_from_text text)"

definition not_email_false_positive :: "string \<Rightarrow> bool" where
  "not_email_false_positive email = (\<not> isEmailFalsePositive email)"

definition extractEmails :: "string \<Rightarrow> string \<Rightarrow> string list" where
  "extractEmails text html =
     take 15
       (dedup (sort (filter isValidEmailDomain
         (filter not_email_false_positive
           (filter isValidEmail (emails_found text html))))))"

subsection \<open>The e-mail stage of \<open>validateExtractedData\<close>\<close>

text \<open>\<open>/^(info|contact|hello)@/\<close>, \<open>/^(support|help)@/\<close> and \<open>/^(sales|marketing)@/\<close>\<close>

definition classifyEmailType :: "string \<Rightarrow> string" where
  "classifyEmailType email =
     (if test (Seqs [Bol, Alts [Lit ''info'', Lit ''contact'', Lit ''hello''], Chr CHR ''@'']) email then ''general''
      else if test (Seqs [Bol, Alts [Lit ''support'', Lit ''help''], Chr CHR ''@'']) email then ''support''
      else if test (Seqs [Bol, Alts [Lit ''sales'', Lit ''marketing''], Chr CHR ''@'']) email then ''sales''
      else if test first_last_rx email then ''personal''
      else ''other'')"

section \<open>WebScraper: phone numbers\<close>

subsection \<open>Validation\<close>

text \<open>\<open>phone.replace(/[^\d+]/g, '')\<close>\<close>

definition digit_or_plus :: "char \<Rightarrow> bool" where
  "digit_or_plus c = (is_digit c \<or> c = CHR ''+'')"

definition not_digit_or_plus :: "char \<Rightarrow> bool" where
  "not_digit_or_plus c = (\<not> digit_or_plus c)"

definition cleanPhoneNumber :: "string \<Rightarrow> string" where
  "cleanPhoneNumber phone = replace_all (Cls not_digit_or_plus) (\<lambda>caps. []) phone"

definition digits :: "nat \<Rightarrow> rx" where
  "digits n = Times n (Cls is_digit)"

text \<open>
  \<open>SKIP_PHONE_REGEXS\<close> joined by \<open>|\<close> into one regular expression:
  \<open>^[0-9]{4}-[0-9]{2}-[0-9]{2}$\<close>, \<open>^[0-9]{4}/[0-9]{2}/[0-9]{2}$\<close>,
  \<open>^[0-9]{2}/[0-9]{2}/[0-9]{4}$\<close> and \<open>^[0-9]{8,}$\<close>.
\<close>

definition skipRegex :: rx where
  "skipRegex =
     Alts [Seqs [Bol, digits 4, Chr CHR ''-'', digits 2, Chr CHR ''-'', digits 2, Eol],
           Seqs [Bol, digits 4, Chr CHR ''/'', digits 2, Chr CHR ''/'', digits 2, Eol],
           Seqs [Bol, digits 2, Chr CHR ''/'', digits 2, Chr CHR ''/'', digits 4, Eol],
           Seqs [Bol, AtLeast 8 (Cls is_digit), Eol]]"

text \<open>\<open>(cleaned.match(/[0-9]/g) || []).length\<close>\<close>

definition digitCount :: "string \<Rightarrow> nat" where
  "digitCount cleaned = length (match_all (Cls is_digit) cleaned)"

definition isValidPhoneNumber :: "string \<Rightarrow> bool" where
  "isValidPhoneNumber cleaned =
     (if digitCount cleaned < 7 then False
      else if length cleaned < 7 \<or> length cleaned > 15 then False
      else if test skipRegex cleaned then False
      else if startsWith cleaned ''+'' then length cleaned \<ge> 8 \<and> length cleaned \<le> 15
      else if (length cleaned = 10 \<or> (length cleaned = 11 \<and> startsWith cleaned ''1'')) \<and>
              length (if startsWith cleaned ''1'' then substring_from cleaned 1 else cleaned) = 10
      then (let number = (if startsWith cleaned ''1'' then substring_from cleaned 1 else cleaned);
                areaCode = substring number 0 3;
                exchange = substring number 3 6
            in if startsWith areaCode ''0'' \<or> startsWith areaCode ''1'' then False
               else if startsWith exchange ''0'' \<or> startsWith exchange ''1'' then False
               else True)
      else length cleaned \<ge> 7 \<and> length cleaned \<le> 15)"

subsection \<open>False positives\<close>

definition phone_falsePositives :: "string list" where
  "phone_falsePositives =
     [''1234567890'', ''0000000000'', ''1111111111'', ''2222222222'',
      ''3333333333'', ''4444444444'', ''5555555555'', ''6666666666'',
      ''7777777777'', ''8888888888'', ''9999999999'',
      ''1234567800'', ''1234567890'', ''0987654321'',
      ''5551234567'', ''8005551234'', ''5551212000'', ''5552345678'',
      ''5551234'', ''5559876'', ''5551212'',
      ''1234567'', ''9876543'', ''5555555'', ''1111111'',
      ''0123456789'', ''1230984567'']"

text \<open>\<open>/^\d{4}\d{2}\d{2}$/\<close>, \<open>/^\d{2}\d{2}\d{4}$/\<close>, \<open>/^\d{4}$/\<close> and \<open>/^\d{8}$/\<close>\<close>

definition datePatterns :: "rx list" where
  "datePatterns =
     [Seqs [Bol, digits 4, digits 2, digits 2, Eol],
      Seqs [Bol, digits 2, digits 2, digits 4, Eol],
      Seqs [Bol, digits 4, Eol],
      Seqs [Bol, digits 8, Eol]]"

text \<open>\<open>/^(012|123|234|345|456|567|678|789|890|987|876|765|654|543|432|321|210)/\<close>\<close>

definition sequential_rx :: rx where
  "sequential_rx =
     Seq Bol (Alts [Lit ''012'', Lit ''123'', Lit ''234'', Lit ''345'', Lit ''456'', Lit ''567'',
                    Lit ''678'', Lit ''789'', Lit ''890'', Lit ''987'', Lit ''876'', Lit ''765'',
                    Lit ''654'', Lit ''543'', Lit ''432'', Lit ''321'', Lit ''210''])"

text \<open>\<open>/(\d)\1{6,}/\<close>\<close>

definition repeated_digit_rx :: rx where
  "repeated_digit_rx = Seq (Grp 1 (Cls is_digit)) (AtLeast 6 (Backref False 1))"

definition phone_placeholderWords :: "string list" where
  "phone_placeholderWords =
     [''xxx'', ''yyy'', ''zzz'', ''test'', ''phone'', ''number'',
      ''call'', ''dial'', ''contact'', ''placeholder'', ''sample'']"

text \<open>\<open>/ext\.?\s?\d{1,5}/i\<close>\<close>

definition ext_rx :: rx where
  "ext_rx = Seqs [Lit_i ''ext'', Opt (Chr CHR ''.''), Opt (Cls is_space), Range 1 5 (Cls is_digit)]"

definition matches_phone :: "string \<Rightarrow> rx \<Rightarrow> bool" where
  "matches_phone s pattern = test pattern s"

text \<open>The block \<open>if (cleaned.length === 10) { ... }\<close>: \<open>true\<close> when it returns \<open>true\<close>.\<close>

definition suspicious_us_number :: "string \<Rightarrow> bool" where
  "suspicious_us_number cleaned =
     (let area = substring cleaned 0 3;
          exchange = substring cleaned 3 6;
          number = substring_from cleaned 6
      in area \<in> set [''000'', ''001'', ''111'', ''911''] \<or>
         (area = exchange \<and> exchange = number) \<or>
         (area = ''555'' \<and> exchange = ''555''))"

text \<open>The block \<open>if (number.length === 10) { ... }\<close> of the \<open>Enhanced validation\<close>.\<close>

definition invalid_nanp_number :: "string \<Rightarrow> bool" where
  "invalid_nanp_number number =
     (let areaCode = substring number 0 3;
          exchange = substring number 3 6
      in areaCode \<in> set [''000'', ''001'', ''111'', ''211'', ''311'', ''411'', ''511'', ''611'',
                           ''711'', ''811'', ''911''] \<or>
         startsWith areaCode ''0'' \<or> startsWith areaCode ''1'' \<or>
         endsWith areaCode ''11'' \<or>
         startsWith exchange ''0'' \<or> startsWith exchange ''1'' \<or>
         (exchange = ''555'' \<and> substring number 6 8 = ''01''))"

definition isPhoneFalsePositive :: "string \<Rightarrow> bool" where
  "isPhoneFalsePositive phone =
     (if phone = [] then True
      else let cleaned = digits_only phone in
        if cleaned \<in> set phone_falsePositives then True
        else if list_ex (matches_phone cleaned) datePatterns then True
        else if test sequential_rx cleaned then True
        else if test repeated_digit_rx cleaned then True
        else if length cleaned = 10 \<and> suspicious_us_number cleaned then True
        else if list_ex (includes_str (toLowerCase phone)) phone_placeholderWords then True
        else if (length cleaned = 10 \<or> (length cleaned = 11 \<and> startsWith cleaned ''1'')) \<and>
                length (if startsWith cleaned ''1'' then substring_from cleaned 1 else cleaned) = 10 \<and>
                invalid_nanp_number (if startsWith cleaned ''1'' then substring_from cleaned 1 else cleaned)
        then True
        else if length cleaned < 7 \<or> length cleaned > 15 then True
        else if includes_str (toLowerCase phone) ''extension'' \<and> \<not> test ext_rx phone then True
        else False)"

subsection \<open>Formatting\<close>

text \<open>\<open>formatPhoneNumber\<close> never returns \<open>null\<close>, so the filter \<open>phone !== null\<close> that
  follows it in \<open>extractPhoneNumbers\<close> keeps every element.\<close>

definition formatPhoneNumber :: "string \<Rightarrow> string" where
  "formatPhoneNumber phone =
     (let cleaned = cleanPhoneNumber phone in
      if length cleaned = 10
      then ''('' @ substring cleaned 0 3 @ '') '' @ substring cleaned 3 6 @ ''-'' @ substring_from cleaned 6
      else if length cleaned = 11 \<and> startsWith cleaned ''1''
      then (let number = substring_from cleaned 1
            in ''+1 ('' @ substring number 0 3 @ '') '' @ substring number 3 6 @ ''-'' @ substring_from number 6)
      else trim phone)"

subsection \<open>The patterns of \<open>extractPhoneNumbers\<close>\<close>

definition opt_space :: rx where
  "opt_space = Opt (Chr CHR '' '')"

text \<open>\<open>[0-9]{m,n}\<close>\<close>

definition digit_run :: "nat \<Rightarrow> nat \<Rightarrow> rx" where
  "digit_run m n = Range m n (Cls is_digit)"

text \<open>\<open>([0-9]{1,4}( )?)?\([0-9]{2,4}\)( )?[0-9]{2,4}(( )?(-|.))?( )?[0-9]{2,6}\<close>: the dot of
  \<open>(-|.)\<close> is not escaped, it stands for any character but a line terminator.\<close>

definition paren_phone_rx :: rx where
  "paren_phone_rx =
     Seqs [Opt (Seq (digit_run 1 4) opt_space), Chr CHR ''('', digit_run 2 4, Chr CHR '')'', opt_space,
           digit_run 2 4, Opt (Seq opt_space (Alt (Chr CHR ''-'') (Cls is_dot))), opt_space, digit_run 2 6]"

definition PHONE_REGEX_STRINGS :: "rx list" where
  \<open>PHONE_REGEX_STRINGS =
     [ \<comment> \<open>\<open>[0-9]{6,15}\<close>\<close>
       digit_run 6 15,
       paren_phone_rx,
       \<comment> \<open>\<open>\([0-9]{2}\)( )?[0-9]{4,5}-[0-9]{4}\<close>\<close>
       Seqs [Chr CHR ''('', digits 2, Chr CHR '')'', opt_space, digit_run 4 5, Chr CHR ''-'', digits 4],
       paren_phone_rx,
       \<comment> \<open>\<open>[0-9]{2,4}-[0-9]{2,4}-[0-9]{2,4}-[0-9]{2,6}\<close>\<close>
       Seqs [digit_run 2 4, Chr CHR ''-'', digit_run 2 4, Chr CHR ''-'', digit_run 2 4, Chr CHR ''-'', digit_run 2 6],
       \<comment> \<open>\<open>[0-9]{2,4}-[0-9]{2,4}-[0-9]{2,6}\<close>\<close>
       Seqs [digit_run 2 4, Chr CHR ''-'', digit_run 2 4, Chr CHR ''-'', digit_run 2 6],
       \<comment> \<open>\<open>[0-9]{2,4}-[0-9]{2,6}\<close>\<close>
       Seqs [digit_run 2 4, Chr CHR ''-'', digit_run 2 6],
       \<comment> \<open>\<open>[0-9]{2,4}\.[0-9]{2,4}\.[0-9]{2,4}\.[0-9]{2,6}\<close>\<close>
       Seqs [digit_run 2 4, Chr CHR ''.'', digit_run 2 4, Chr CHR ''.'', digit_run 2 4, Chr CHR ''.'', digit_run 2 6],
       \<comment> \<open>\<open>[0-9]{2,4}\.[0-9]{2,4}\.[0-9]{2,6}\<close>\<close>
       Seqs [digit_run 2 4, Chr CHR ''.'', digit_run 2 4, Chr CHR ''.'', digit_run 2 6],
       \<comment> \<open>\<open>[0-9]{2,4}\.[0-9]{2,6}\<close>\<close>
       Seqs [digit_run 2 4, Chr CHR ''.'', digit_run 2 6],
       \<comment> \<open>\<open>[0-9]{2,4} [0-9]{2,4} [0-9]{2,4} [0-9]{2,6}\<close>\<close>
       Seqs [digit_run 2 4, Chr CHR '' '', digit_run 2 4, Chr CHR '' '', digit_run 2 4, Chr CHR '' '', digit_run 2 6],
       \<comment> \<open>\<open>[0-9]{2,4} [0-9]{2,4} [0-9]{2,6}\<close>\<close>
       Seqs [digit_run 2 4, Chr CHR '' '', digit_run 2 4, Chr CHR '' '', digit_run 2 6],
       \<comment> \<open>\<open>[0-9]{2,4} [0-9]{3,8}\<close>\<close>
       Seqs [digit_run 2 4, Chr CHR '' '', digit_run 3 8] ]\<close>

text \<open>\<open>new RegExp(`(00|\\+)?${regex}`, 'ig')\<close>\<close>

definition with_prefix :: "rx \<Rightarrow> rx" where
  "with_prefix regex = Seq (Opt (Alt (Lit ''00'') (Chr CHR ''+''))) regex"

definition phonePatterns :: "rx list" where
  "phonePatterns = map with_prefix PHONE_REGEX_STRINGS"

text \<open>\<open>/^(tel|phone|telephone|callto):(\/)?(\/)?/i\<close>\<close>

definition PHONE_URL_PREFIX_REGEX :: rx where
  "PHONE_URL_PREFIX_REGEX =
     Seqs [Bol, Alts [Lit_i ''tel'', Lit_i ''phone'', Lit_i ''telephone'', Lit_i ''callto''], Chr CHR '':'',
           Opt (Chr CHR ''/''), Opt (Chr CHR ''/'')]"

definition add_url_phone :: "string list \<Rightarrow> string \<Rightarrow> string list" where
  "add_url_phone phones url =
     (if url = [] \<or> \<not> test PHONE_URL_PREFIX_REGEX url then phones
      else let phone = trim (replace_first PHONE_URL_PREFIX_REGEX (\<lambda>caps. []) url)
           in if isValidPhoneNumber (cleanPhoneNumber phone) then phones @ [phone] else phones)"

definition phonesFromUrls :: "string list \<Rightarrow> string list" where
  "phonesFromUrls urls = foldl add_url_phone [] urls"

text \<open>\<open>[\d\s\-\(\)\.ext]\<close>, and \<open>[+]?[\d\s\-\(\)\.ext]+\<close> with and without the \<open>i\<close> flag.\<close>

definition tel_cls :: "char \<Rightarrow> bool" where
  "tel_cls c = (is_digit c \<or> is_space c \<or> one_of ''-().ext'' c)"

definition tel_number_rx :: rx where
  "tel_number_rx = Grp 1 (Seq (Opt (Chr CHR ''+'')) (Plus (Cls tel_cls)))"

definition not_dquote :: "char \<Rightarrow> bool" where
  "not_dquote c = (c \<noteq> dquote)"

definition not_gt :: "char \<Rightarrow> bool" where
  "not_gt c = (c \<noteq> CHR ''>'')"

text \<open>\<open>/itemprop\s*=\s*['""]telephone['""][^>]*content\s*=\s*['""]([^'""]+)['"]/gi\<close>, in both
  lists below.\<close>

definition itemprop_telephone_rx :: rx where
  "itemprop_telephone_rx =
     Seqs [Lit_i ''itemprop'', ws_star, Chr CHR ''='', ws_star, Cls quote_cls, Lit_i ''telephone'', Cls quote_cls,
           Star (Cls not_gt), Lit_i ''content'', ws_star, Chr CHR ''='', ws_star, Cls quote_cls,
           Plus (Cls not_quote), Cls quote_cls]"

text \<open>\<open>/"telephone":\s*"([^"]+)"/gi\<close>\<close>

definition json_telephone_rx :: rx where
  "json_telephone_rx =
     Seqs [Chr dquote, Lit_i ''telephone'', Chr dquote, Chr CHR '':'', ws_star, Chr dquote,
           Plus (Cls not_dquote), Chr dquote]"

definition telPatterns :: "rx list" where
  \<open>telPatterns =
     [ \<comment> \<open>\<open>/tel:([+]?[\d\s\-\(\)\.ext]+)/gi\<close>\<close>
       Seqs [Lit_i ''tel:'', Opt (Chr CHR ''+''), Plus (Cls (ci tel_cls))],
       \<comment> \<open>\<open>/href\s*=\s*['"]\s*tel:([^'"]*)['"]>/gi\<close>\<close>
       Seqs [Lit_i ''href'', ws_star, Chr CHR ''='', ws_star, Cls quote_cls, ws_star, Lit_i ''tel:'',
             Star (Cls not_quote), Cls quote_cls, Chr CHR ''>''],
       json_telephone_rx,
       itemprop_telephone_rx ]\<close>

definition phone_schemaPatterns :: "rx list" where
  \<open>phone_schemaPatterns =
     [ json_telephone_rx,
       \<comment> \<open>\<open>/"phone":\s*"([^"]+)"/gi\<close>\<close>
       Seqs [Chr dquote, Lit_i ''phone'', Chr dquote, Chr CHR '':'', ws_star, Chr dquote,
             Plus (Cls not_dquote), Chr dquote],
       itemprop_telephone_rx,
       \<comment> \<open>\<open>/data-phone\s*=\s*['""]([^'""]+)['"]/gi\<close>\<close>
       Seqs [Lit_i ''data-phone'', ws_star, Chr CHR ''='', ws_star, Cls quote_cls,
             Plus (Cls not_quote), Cls quote_cls] ]\<close>

text \<open>\<open>/"([^"]+)"/\<close>\<close>

definition quoted_rx :: rx where
  "quoted_rx = Seqs [Chr dquote, Grp 1 (Plus (Cls not_dquote)), Chr dquote]"

subsection \<open>\<open>extractPhoneNumbers\<close>\<close>

text \<open>The callbacks of the loops, with the set \<open>phones\<close> passed through.\<close>

definition add_text_phone :: "string list \<Rightarrow> string \<Rightarrow> string list" where
  "add_text_phone phones phone =
     (if isValidPhoneNumber (cleanPhoneNumber phone) \<and> \<not> isPhoneFalsePositive phone
      then set_add phones (trim phone) else phones)"

definition add_phone_pattern :: "string \<Rightarrow> string list \<Rightarrow> rx \<Rightarrow> string list" where
  "add_phone_pattern text phones pattern = foldl add_text_phone phones (match_all pattern text)"

definition phones_from_text :: "string \<Rightarrow> string list" where
  "phones_from_text text = foldl (add_phone_pattern text) [] phonePatterns"

definition add_valid_phone :: "string list \<Rightarrow> string \<Rightarrow> string list" where
  "add_valid_phone phones phone =
     (if isValidPhoneNumber (cleanPhoneNumber phone) then set_add phones phone else phones)"

definition add_checked_phone :: "string list \<Rightarrow> string \<Rightarrow> string list" where
  "add_checked_phone phones phone =
     (if isValidPhoneNumber (cleanPhoneNumber phone) \<and> \<not> isPhoneFalsePositive phone
      then set_add phones phone else phones)"

definition add_inner_phone :: "rx \<Rightarrow> string list \<Rightarrow> string \<Rightarrow> string list" where
  "add_inner_phone inner phones m =
     (case exec_grp inner 1 m of
        None \<Rightarrow> phones
      | Some g \<Rightarrow> add_checked_phone phones (trim g))"

definition add_html_phone_pattern :: "rx \<Rightarrow> string \<Rightarrow> string list \<Rightarrow> rx \<Rightarrow> string list" where
  "add_html_phone_pattern inner html phones pattern =
     foldl (add_inner_phone inner) phones (match_all pattern html)"

definition phones_from_html :: "string list \<Rightarrow> string \<Rightarrow> string list" where
  "phones_from_html phones html =
     foldl (add_html_phone_pattern quoted_rx html)
       (foldl (add_html_phone_pattern tel_number_rx html)
         (foldl add_valid_phone phones (phonesFromUrls (extractUrlsFromHtml html)))
         telPatterns)
       phone_schemaPatterns"

definition phones_found :: "string \<Rightarrow> string \<Rightarrow> string list" where
  "phones_found text html =
     (if html \<noteq> [] then phones_from_html (phones_from_text text) html
      else phones_from_text text)"

definition not_phone_false_positive :: "string \<Rightarrow> bool" where
  "not_phone_false_positive phone = (\<not> isPhoneFalsePositive phone)"

definition extractPhoneNumbers :: "string \<Rightarrow> string \<Rightarrow> string list" where
  "extractPhoneNumbers text html =
     take 10
       (dedup (sort (map formatPhoneNumber
         (filter not_phone_false_positive (phones_found text html)))))"

section \<open>WebScraper: names\<close>

subsection \<open>Validation\<close>

text \<open>\<open>/^[A-Za-z\s.'-]+$/\<close> and \<open>/^[A-Z]/\<close>\<close>

definition name_char :: "char \<Rightarrow> bool" where
  "name_char c = (is_alpha c \<or> is_space c \<or> c = CHR ''.'' \<or> c = squote \<or> c = CHR ''-'')"

definition name_chars_rx :: rx where
  "name_chars_rx = Seqs [Bol, Plus (Cls name_char), Eol]"

definition starts_upper_rx :: rx where
  "starts_upper_rx = Seq Bol (Cls is_upper)"

definition bad_part_length :: "string \<Rightarrow> bool" where
  "bad_part_length part = (length part < 2 \<or> length part > 20)"

definition longer_than_one :: "string \<Rightarrow> bool" where
  "longer_than_one part = (length part > 1)"

definition not_capitalised :: "string \<Rightarrow> bool" where
  "not_capitalised word = (\<not> test starts_upper_rx word)"

definition isValidName :: "string \<Rightarrow> bool" where
  "isValidName name =
     (if name = [] then False
      else if length (trim name) < 3 \<or> length (trim name) > 50 then False
      else if length (split_ws (trim name)) < 2 then False
      else if list_ex bad_part_length (split_ws (trim name)) then False
      else if \<not> test name_chars_rx (trim name) then False
      else if \<not> test starts_upper_rx (trim name) then False
      else if list_ex not_capitalised (filter longer_than_one (split_ws (trim name))) then False
      else True)"

subsection \<open>False positives\<close>

definition name_falsePositives :: "string list" where
  "name_falsePositives =
     [''john doe'', ''jane doe'', ''john smith'', ''jane smith'',
      ''lorem ipsum'', ''test user'', ''sample name'', ''your name'',
      ''first last'', ''fname lname'', ''firstname lastname'',
      ''user name'', ''full name'', ''company name'', ''business name'',
      ''admin user'', ''site admin'', ''web admin'', ''administrator'',
      ''default user'', ''guest user'', ''anonymous user'',
      ''example name'', ''sample person'', ''test person'',
      ''dummy name'', ''fake name'', ''placeholder name'']"

definition name_placeholderWords :: "string list" where
  "name_placeholderWords =
     [''lorem'', ''ipsum'', ''example'', ''sample'', ''test'', ''dummy'', ''fake'', ''placeholder'', ''default'']"

definition businessTerms :: "string list" where
  "businessTerms =
     [''company'', ''corporation'', ''business'', ''enterprise'', ''organization'',
      ''department'', ''division'', ''office'', ''branch'', ''headquarters'',
      ''customer service'', ''tech support'', ''sales team'', ''marketing team'',
      ''help desk'', ''information desk'', ''reception'', ''front desk'',
      ''about us'', ''contact us'', ''home page'', ''main page'', ''news events'',
      ''domain names'', ''abuse information'', ''protocols numbers'',
      ''root zone'', ''time zones'', ''root servers'', ''special use'']"

definition jobTitles :: "string list" where
  "jobTitles =
     [''customer service'', ''tech support'', ''sales representative'',
      ''marketing manager'', ''account manager'', ''project manager'',
      ''general manager'', ''operations manager'', ''office manager'']"

definition genericNames :: "string list" where
  "genericNames =
     [''contact person'', ''sales person'', ''support person'',
      ''your contact'', ''our representative'', ''team member'',
      ''staff member'', ''company representative'']"

definition techTerms :: "string list" where
  "techTerms = [''api key'', ''user id'', ''client id'', ''session id'', ''auth token'']"

definition name_suspiciousPatterns :: "rx list" where
  \<open>name_suspiciousPatterns =
     [ \<comment> \<open>\<open>/^(mr|mrs|ms|dr|prof)\.?\s+(example|sample|test)/i\<close>\<close>
       Seqs [Bol, Alts [Lit_i ''mr'', Lit_i ''mrs'', Lit_i ''ms'', Lit_i ''dr'', Lit_i ''prof''],
             Opt (Chr CHR ''.''), ws_plus, Alts [Lit_i ''example'', Lit_i ''sample'', Lit_i ''test'']],
       \<comment> \<open>\<open>/^(example|sample|test)\s+/i\<close>\<close>
       Seqs [Bol, Alts [Lit_i ''example'', Lit_i ''sample'', Lit_i ''test''], ws_plus],
       \<comment> \<open>\<open>/^[a-z]{1,2}\s+[a-z]{1,2}$/i\<close>\<close>
       Seqs [Bol, Range 1 2 (Cls (ci is_lower)), ws_plus, Range 1 2 (Cls (ci is_lower)), Eol],
       \<comment> \<open>\<open>/^(.+)\s+\1$/i\<close>\<close>
       Seqs [Bol, Grp 1 (Plus (Cls is_dot)), ws_plus, Backref True 1, Eol],
       \<comment> \<open>\<open>/\d/\<close>\<close>
       Cls is_digit,
       \<comment> \<open>\<open>/[!@#$%^&*(),.?":{}|<>]/\<close>\<close>
       Cls (one_of (''!@#$%^&*(),.?:{}|<>'' @ [dquote])),
       \<comment> \<open>\<open>/^[A-Z]+\s+[A-Z]+$/\<close>\<close>
       Seqs [Bol, Plus (Cls is_upper), ws_plus, Plus (Cls is_upper), Eol] ]\<close>

definition matches_name :: "string \<Rightarrow> rx \<Rightarrow> bool" where
  "matches_name name pattern = test pattern name"

definition isNameFalsePositive :: "string \<Rightarrow> bool" where
  "isNameFalsePositive name =
     (if name = [] then True
      else if trim (toLowerCase name) \<in> set name_falsePositives then True
      else if list_ex (includes_str (trim (toLowerCase name))) name_placeholderWords then True
      else if list_ex (includes_str (trim (toLowerCase name))) businessTerms then True
      else if list_ex (includes_str (trim (toLowerCase name))) jobTitles then True
      else if list_ex (includes_str (trim (toLowerCase name))) genericNames then True
      else if list_ex (includes_str (trim (toLowerCase name))) techTerms then True
      else list_ex (matches_name name) name_suspiciousPatterns)"

subsection \<open>Normalisation\<close>

text \<open>\<open>/\s+/g\<close> replaced by one space.\<close>

definition one_space :: "(nat \<times> string) list \<Rightarrow> string" where
  "one_space caps = '' ''"

definition collapse_spaces :: "string \<Rightarrow> string" where
  "collapse_spaces s = replace_all ws_plus one_space s"

text \<open>The replacement strings \<open>'$1 $2'\<close>, \<open>'$1. $2'\<close> and \<open>'$1 $2.'\<close>.\<close>

definition group_space_group :: "(nat \<times> string) list \<Rightarrow> string" where
  "group_space_group caps = lookup_grp 1 caps @ '' '' @ lookup_grp 2 caps"

definition group_dot_space_group :: "(nat \<times> string) list \<Rightarrow> string" where
  "group_dot_space_group caps = lookup_grp 1 caps @ ''. '' @ lookup_grp 2 caps"

definition group_space_group_dot :: "(nat \<times> string) list \<Rightarrow> string" where
  "group_space_group_dot caps = lookup_grp 1 caps @ '' '' @ lookup_grp 2 caps @ ''.''"

text \<open>\<open>/([a-z])([A-Z])/g\<close>, \<open>/\b([A-Z])\.?\s*([A-Z])\b/g\<close> and
  \<open>/\b([A-Z][a-z]+)\s+([A-Z])\b/g\<close>\<close>

definition camel_rx :: rx where
  "camel_rx = Seq (Grp 1 (Cls is_lower)) (Grp 2 (Cls is_upper))"

definition initials_rx :: rx where
  "initials_rx = Seqs [WordB, Grp 1 (Cls is_upper), Opt (Chr CHR ''.''), ws_star, Grp 2 (Cls is_upper), WordB]"

definition single_letter_rx :: rx where
  "single_letter_rx = Seqs [WordB, Grp 1 (Seq (Cls is_upper) (Plus (Cls is_lower))), ws_plus,
     Grp 2 (Cls is_upper), WordB]"

text \<open>\<open>word.charAt(0).toUpperCase() + word.slice(1).toLowerCase()\<close>\<close>

definition capitalise :: "string \<Rightarrow> string" where
  "capitalise word = toUpperCase (take 1 word) @ toLowerCase (drop 1 word)"

text \<open>\<open>words.join(' ')\<close>\<close>

fun join_spaces :: "string list \<Rightarrow> string" where
  "join_spaces [] = []"
| "join_spaces [w] = w"
| "join_spaces (w # ws) = w @ '' '' @ join_spaces ws"

definition normalizeName :: "string \<Rightarrow> string" where
  "normalizeName name =
     join_spaces (map capitalise
       (split
         (replace_all single_letter_rx group_space_group_dot
           (replace_all initials_rx group_dot_space_group
             (replace_all camel_rx group_space_group
               (collapse_spaces (trim name)))))
         CHR '' ''))"

subsection \<open>The patterns of \<open>extractNames\<close>\<close>

text \<open>\<open>[A-Z]\<close> and \<open>[a-z]\<close>, with the \<open>i\<close> flag (\<open>True\<close>) or without it.\<close>

definition Up :: "bool \<Rightarrow> rx" where
  "Up ic = Cls (if ic then ci is_upper else is_upper)"

definition Lo :: "bool \<Rightarrow> rx" where
  "Lo ic = Cls (if ic then ci is_lower else is_lower)"

text \<open>\<open>(?:\s+[A-Z]\.?\s*)?\<close>\<close>

definition middle_initial :: "bool \<Rightarrow> rx" where
  "middle_initial ic = Opt (Seqs [ws_plus, Up ic, Opt (Chr CHR ''.''), ws_star])"

text \<open>\<open>([A-Z][a-z]{1,15}(?:\s+[A-Z]\.?\s*)?[A-Z][a-z]{1,20})\<close>, the group 1 of most
  patterns.\<close>

definition name_core :: "bool \<Rightarrow> rx" where
  "name_core ic = Grp 1 (Seqs [Up ic, Range 1 15 (Lo ic), middle_initial ic, Up ic, Range 1 20 (Lo ic)])"

text \<open>\<open>[A-Z][a-z]+'?\<close>\<close>

definition titled_part :: rx where
  "titled_part = Seqs [Up True, Plus (Lo True), Opt (Chr squote)]"

definition dot_opt :: rx where
  "dot_opt = Opt (Chr CHR ''.'')"

definition comma_opt :: rx where
  "comma_opt = Opt (Chr CHR '','')"

definition namePatterns :: "rx list" where
  \<open>namePatterns =
     [ \<comment> \<open>\<open>/(?:Dr\.?|Doctor|Prof\.?|Professor|Mr\.?|Ms\.?|Mrs\.?|Miss|CEO|President|Director|Manager|VP|Vice\s+President)\s+([A-Z][a-z]+'?(?:\s+[A-Z]\.?\s*)?[A-Z][a-z]+'?(?:\s+[A-Z][a-z]+'?)?)/gi\<close>\<close>
       Seqs [Alts [Seq (Lit_i ''Dr'') dot_opt, Lit_i ''Doctor'', Seq (Lit_i ''Prof'') dot_opt, Lit_i ''Professor'',
                   Seq (Lit_i ''Mr'') dot_opt, Seq (Lit_i ''Ms'') dot_opt, Seq (Lit_i ''Mrs'') dot_opt,
                   Lit_i ''Miss'', Lit_i ''CEO'', Lit_i ''President'', Lit_i ''Director'', Lit_i ''Manager'',
                   Lit_i ''VP'', Seqs [Lit_i ''Vice'', ws_plus, Lit_i ''President'']],
             ws_plus,
             Grp 1 (Seqs [titled_part, middle_initial True, titled_part, Opt (Seq ws_plus titled_part)])],
       \<comment> \<open>\<open>/(?:contact|reach(?:\s+out\s+to)?|speak\s+with|talk\s+to|meet|ask\s+for|call|email)\s+(?:us\s+at\s+)?([A-Z][a-z]{1,15}(?:\s+[A-Z]\.?\s*)?[A-Z][a-z]{1,20})/gi\<close>\<close>
       Seqs [Alts [Lit_i ''contact'',
                   Seq (Lit_i ''reach'') (Opt (Seqs [ws_plus, Lit_i ''out'', ws_plus, Lit_i ''to''])),
                   Seqs [Lit_i ''speak'', ws_plus, Lit_i ''with''], Seqs [Lit_i ''talk'', ws_plus, Lit_i ''to''],
                   Lit_i ''meet'', Seqs [Lit_i ''ask'', ws_plus, Lit_i ''for''], Lit_i ''call'', Lit_i ''email''],
             ws_plus, Opt (Seqs [Lit_i ''us'', ws_plus, Lit_i ''at'', ws_plus]), name_core True],
       \<comment> \<open>\<open>/(?:about|team|staff|meet|our|founder|co-founder|ceo|president|owner|director|manager|lead|head|senior|principal|chief)[\s:]*([A-Z][a-z]{1,15}\s+[A-Z][a-z]{1,20})/gi\<close>\<close>
       Seqs [Alts [Lit_i ''about'', Lit_i ''team'', Lit_i ''staff'', Lit_i ''meet'', Lit_i ''our'', Lit_i ''founder'',
                   Lit_i ''co-founder'', Lit_i ''ceo'', Lit_i ''president'', Lit_i ''owner'', Lit_i ''director'',
                   Lit_i ''manager'', Lit_i ''lead'', Lit_i ''head'', Lit_i ''senior'', Lit_i ''principal'',
                   Lit_i ''chief''],
             Star (Cls (\<lambda>c. is_space c \<or> c = CHR '':'')),
             Grp 1 (Seqs [Up True, Range 1 15 (Lo True), ws_plus, Up True, Range 1 20 (Lo True)])],
       \<comment> \<open>\<open>/(?:by|author|written\s+by|created\s+by|developed\s+by):\s*([A-Z][a-z]{1,15}(?:\s+[A-Z]\.?\s*)?[A-Z][a-z]{1,20})/gi\<close>\<close>
       Seqs [Alts [Lit_i ''by'', Lit_i ''author'', Seqs [Lit_i ''written'', ws_plus, Lit_i ''by''],
                   Seqs [Lit_i ''created'', ws_plus, Lit_i ''by''], Seqs [Lit_i ''developed'', ws_plus, Lit_i ''by'']],
             Chr CHR '':'', ws_star, name_core True],
       \<comment> \<open>\<open>/([A-Z][a-z]{1,15}(?:\s+[A-Z]\.?\s*)?[A-Z][a-z]{1,20}),?\s+(?:is\s+(?:our|the|a)|works?\s+as|serves?\s+as)?\s*(?:CEO|President|Director|Manager|Engineer|Developer|Designer|Consultant|Specialist|Coordinator|Analyst|Associate)/gi\<close>\<close>
       Seqs [name_core True, comma_opt, ws_plus,
             Opt (Alts [Seqs [Lit_i ''is'', ws_plus, Alts [Lit_i ''our'', Lit_i ''the'', Lit_i ''a'']],
                        Seqs [Lit_i ''work'', Opt (Chr_i CHR ''s''), ws_plus, Lit_i ''as''],
                        Seqs [Lit_i ''serve'', Opt (Chr_i CHR ''s''), ws_plus, Lit_i ''as'']]),
             ws_star,
             Alts [Lit_i ''CEO'', Lit_i ''President'', Lit_i ''Director'', Lit_i ''Manager'', Lit_i ''Engineer'',
                   Lit_i ''Developer'', Lit_i ''Designer'', Lit_i ''Consultant'', Lit_i ''Specialist'',
                   Lit_i ''Coordinator'', Lit_i ''Analyst'', Lit_i ''Associate'']],
       \<comment> \<open>\<open>/(?:hello,?\s+i'?m|hi,?\s+i'?m|my\s+name\s+is|i'?m|this\s+is)\s+([A-Z][a-z]{1,15}(?:\s+[A-Z]\.?\s*)?[A-Z][a-z]{1,20})/gi\<close>\<close>
       Seqs [Alts [Seqs [Lit_i ''hello'', comma_opt, ws_plus, Chr_i CHR ''i'', Opt (Chr squote), Chr_i CHR ''m''],
                   Seqs [Lit_i ''hi'', comma_opt, ws_plus, Chr_i CHR ''i'', Opt (Chr squote), Chr_i CHR ''m''],
                   Seqs [Lit_i ''my'', ws_plus, Lit_i ''name'', ws_plus, Lit_i ''is''],
                   Seqs [Chr_i CHR ''i'', Opt (Chr squote), Chr_i CHR ''m''],
                   Seqs [Lit_i ''this'', ws_plus, Lit_i ''is'']],
             ws_plus, name_core True],
       \<comment> \<open>\<open>/["""].*?["""],?\s*(?:said|says|according\s+to|states?)\s+([A-Z][a-z]{1,15}(?:\s+[A-Z]\.?\s*)?[A-Z][a-z]{1,20})/gi\<close>\<close>
       Seqs [Chr dquote, Star_lazy (Cls is_dot), Chr dquote, comma_opt, ws_star,
             Alts [Lit_i ''said'', Lit_i ''says'', Seqs [Lit_i ''according'', ws_plus, Lit_i ''to''],
                   Seq (Lit_i ''state'') (Opt (Chr_i CHR ''s''))],
             ws_plus, name_core True],
       \<comment> \<open>\<open>/([A-Z][a-z]{1,15}(?:\s+[A-Z]\.?\s*)?[A-Z][a-z]{1,20})\s*[,\n]\s*(?:CEO|President|Director|Manager|Partner|Owner|Founder)/gi\<close>\<close>
       Seqs [name_core True, ws_star, Cls (\<lambda>c. c = CHR '','' \<or> c = CHR 0x0A), ws_star,
             Alts [Lit_i ''CEO'', Lit_i ''President'', Lit_i ''Director'', Lit_i ''Manager'', Lit_i ''Partner'',
                   Lit_i ''Owner'', Lit_i ''Founder'']],
       \<comment> \<open>\<open>/(?:best\s+regards?|sincerely|thank\s+you),?\s*\n?\s*([A-Z][a-z]{1,15}(?:\s+[A-Z]\.?\s*)?[A-Z][a-z]{1,20})/gi\<close>\<close>
       Seqs [Alts [Seqs [Lit_i ''best'', ws_plus, Lit_i ''regard'', Opt (Chr_i CHR ''s'')], Lit_i ''sincerely'',
                   Seqs [Lit_i ''thank'', ws_plus, Lit_i ''you'']],
             comma_opt, ws_star, Opt (Chr CHR 0x0A), ws_star, name_core True],
       \<comment> \<open>\<open>/\b([A-Z][a-z]{2,12}\s+[A-Z][a-z]{1,12}\s+[A-Z][a-z]{2,15})\b/g\<close>\<close>
       Seqs [WordB,
             Grp 1 (Seqs [Up False, Range 2 12 (Lo False), ws_plus, Up False, Range 1 12 (Lo False), ws_plus,
                          Up False, Range 2 15 (Lo False)]),
             WordB],
       \<comment> \<open>\<open>/\b([A-Z][a-z]{2,15}\s+(?:[A-Z]\.?\s+)?[A-Z][a-z]{2,20}(?:\s+[A-Z][a-z]{2,20})?)\b/g\<close>\<close>
       Seqs [WordB,
             Grp 1 (Seqs [Up False, Range 2 15 (Lo False), ws_plus,
                          Opt (Seqs [Up False, Opt (Chr CHR ''.''), ws_plus]),
                          Up False, Range 2 20 (Lo False),
                          Opt (Seqs [ws_plus, Up False, Range 2 20 (Lo False)])]),
             WordB] ]\<close>

text \<open>The fallback \<open>/([A-Z][a-z]{1,15}(?:\s+[A-Z]\.?\s*)?(?:\s+[A-Z][a-z]{1,20})+)/\<close>\<close>

definition fallback_name_rx :: rx where
  "fallback_name_rx =
     Grp 1 (Seqs [Up False, Range 1 15 (Lo False), middle_initial False,
                  Plus (Seqs [ws_plus, Up False, Range 1 20 (Lo False)])])"

text \<open>\<open>/([A-Z])\.\s*([A-Z])/g\<close> and \<open>/,.*$/\<close>\<close>

definition initial_spacing_rx :: rx where
  "initial_spacing_rx = Seqs [Grp 1 (Cls is_upper), Chr CHR ''.'', ws_star, Grp 2 (Cls is_upper)]"

definition trailing_title_rx :: rx where
  "trailing_title_rx = Seqs [Chr CHR '','', Star (Cls is_dot), Eol]"

definition no_text :: "(nat \<times> string) list \<Rightarrow> string" where
  "no_text caps = []"

subsection \<open>The text stage of \<open>extractNames\<close>\<close>

text \<open>
  \<open>pattern.exec(match)\<close>: the callback sets \<open>pattern.lastIndex\<close> back to 0 after each
  match, and \<open>text.match(pattern)\<close> leaves it at 0, so every \<open>exec\<close> searches the matched
  text from its start. When group 1 is absent or empty the fallback pattern is tried.
\<close>

definition nonempty_opt :: "string option \<Rightarrow> string option" where
  "nonempty_opt g = (case g of None \<Rightarrow> None | Some s \<Rightarrow> if s = [] then None else Some s)"

definition name_of_match :: "rx \<Rightarrow> string \<Rightarrow> string option" where
  "name_of_match pattern m =
     (case nonempty_opt (exec_grp pattern 1 m) of
        Some g \<Rightarrow> Some g
      | None \<Rightarrow> nonempty_opt (exec_grp fallback_name_rx 1 m))"

text \<open>\<open>nameMatch.trim().replace(/\s+/g, ' ').replace(/([A-Z])\.\s*([A-Z])/g, '$1. $2').replace(/,.*$/, '')\<close>\<close>

definition tidy_name :: "string \<Rightarrow> string" where
  "tidy_name nameMatch =
     replace_first trailing_title_rx no_text
       (replace_all initial_spacing_rx group_dot_space_group
         (collapse_spaces (trim nameMatch)))"

definition add_checked_name :: "string list \<Rightarrow> string \<Rightarrow> string list" where
  "add_checked_name names name =
     (if isValidName name \<and> \<not> isNameFalsePositive name then set_add names name else names)"

definition add_name_match :: "rx \<Rightarrow> string list \<Rightarrow> string \<Rightarrow> string list" where
  "add_name_match pattern names m =
     (case name_of_match pattern m of
        None \<Rightarrow> names
      | Some nameMatch \<Rightarrow> add_checked_name names (tidy_name nameMatch))"

definition add_name_pattern :: "string \<Rightarrow> string list \<Rightarrow> rx \<Rightarrow> string list" where
  "add_name_pattern text names pattern = foldl (add_name_match pattern) names (match_all pattern text)"

definition names_from_text :: "string \<Rightarrow> string list" where
  "names_from_text text = foldl (add_name_pattern text) [] namePatterns"

subsection \<open>The HTML stage of \<open>extractNames\<close>\<close>

definition add_valid_name :: "string list \<Rightarrow> string \<Rightarrow> string list" where
  "add_valid_name names name = (if isValidName name then set_add names name else names)"

text \<open>\<open>[^"]\<close>, \<open>[^}]\<close>, \<open>[^>]\<close>, \<open>[^<]\<close> and \<open>[\s\S]\<close>\<close>

definition not_brace :: rx where
  "not_brace = Cls (\<lambda>c. c \<noteq> CHR ''}'')"

definition not_lt :: rx where
  "not_lt = Cls (\<lambda>c. c \<noteq> CHR ''<'')"

definition any_char :: rx where
  "any_char = Cls (\<lambda>c. True)"

text \<open>\<open>"key":\s*\<close> with the quotes, under the \<open>i\<close> flag.\<close>

definition json_key :: "string \<Rightarrow> rx" where
  "json_key k = Seqs [Chr dquote, Lit_i k, Chr dquote, Chr CHR '':'', ws_star]"

text \<open>\<open>"([^"]+)"\<close>\<close>

definition quoted_group :: "nat \<Rightarrow> rx" where
  "quoted_group k = Seqs [Chr dquote, Grp k (Plus (Cls not_dquote)), Chr dquote]"

text \<open>\<open>"@type":\s*"Person"\<close>\<close>

definition type_person :: rx where
  "type_person = Seqs [json_key ''@type'', Chr dquote, Lit_i ''Person'', Chr dquote]"

definition schemaPatterns :: "rx list" where
  \<open>schemaPatterns =
     [ \<comment> \<open>\<open>/"@type":\s*"Person"[^}]*"name":\s*"([^"]+)"/gi\<close>\<close>
       Seqs [type_person, Star not_brace, json_key ''name'', quoted_group 1],
       \<comment> \<open>\<open>/"@type":\s*"Person"[^}]*"givenName":\s*"([^"]+)"[^}]*"familyName":\s*"([^"]+)"/gi\<close>\<close>
       Seqs [type_person, Star not_brace, json_key ''givenName'', quoted_group 1,
             Star not_brace, json_key ''familyName'', quoted_group 2],
       \<comment> \<open>\<open>/"name":\s*"([A-Z][a-z]{1,15}\s+[A-Z][a-z]{1,20})"/gi\<close>\<close>
       Seqs [json_key ''name'', Chr dquote,
             Grp 1 (Seqs [Up True, Range 1 15 (Lo True), ws_plus, Up True, Range 1 20 (Lo True)]),
             Chr dquote] ]\<close>

text \<open>\<open>/"([A-Z][^"]*[a-z])"/g\<close> and \<open>/"/g\<close>\<close>

definition quoted_name_rx :: rx where
  "quoted_name_rx =
     Seqs [Chr dquote, Grp 1 (Seqs [Cls is_upper, Star (Cls not_dquote), Cls is_lower]), Chr dquote]"

definition strip_quotes :: "string \<Rightarrow> string" where
  "strip_quotes s = replace_all (Chr dquote) no_text s"

definition add_quoted_name :: "string list \<Rightarrow> string \<Rightarrow> string list" where
  "add_quoted_name names nameMatch = add_valid_name names (trim (strip_quotes nameMatch))"

definition add_structured_match :: "string list \<Rightarrow> string \<Rightarrow> string list" where
  "add_structured_match names m = foldl add_quoted_name names (match_all quoted_name_rx m)"

definition add_structured_pattern :: "string \<Rightarrow> string list \<Rightarrow> rx \<Rightarrow> string list" where
  "add_structured_pattern html names pattern =
     foldl add_structured_match names (match_all pattern html)"

definition extractNamesFromStructuredData :: "string \<Rightarrow> string list \<Rightarrow> string list" where
  "extractNamesFromStructuredData html names = foldl (add_structured_pattern html) names schemaPatterns"

text \<open>\<open><meta[^>]+key="v"[^>]+content="([^"]+)"\<close>\<close>

definition meta_rx :: "string \<Rightarrow> string \<Rightarrow> rx" where
  "meta_rx key v =
     Seqs [Lit_i ''<meta'', Plus (Cls not_gt), Lit_i key, Chr CHR ''='', Chr dquote, Lit_i v, Chr dquote,
           Plus (Cls not_gt), Lit_i ''content='', quoted_group 1]"

definition metaPatterns :: "rx list" where
  \<open>metaPatterns =
     [ \<comment> \<open>\<open>/<meta[^>]+name="author"[^>]+content="([^"]+)"/gi\<close>\<close>
       meta_rx ''name'' ''author'',
       \<comment> \<open>\<open>/<meta[^>]+name="creator"[^>]+content="([^"]+)"/gi\<close>\<close>
       meta_rx ''name'' ''creator'',
       \<comment> \<open>\<open>/<meta[^>]+property="article:author"[^>]+content="([^"]+)"/gi\<close>\<close>
       meta_rx ''property'' ''article:author'',
       \<comment> \<open>\<open>/<meta[^>]+property="profile:first_name"[^>]+content="([^"]+)"[^>]*>/gi\<close>\<close>
       Seqs [meta_rx ''property'' ''profile:first_name'', Star (Cls not_gt), Chr CHR ''>''],
       \<comment> \<open>\<open>/<meta[^>]+property="profile:last_name"[^>]+content="([^"]+)"[^>]*>/gi\<close>\<close>
       Seqs [meta_rx ''property'' ''profile:last_name'', Star (Cls not_gt), Chr CHR ''>''] ]\<close>

text \<open>\<open>/content="([^"]+)"/\<close>\<close>

definition content_rx :: rx where
  "content_rx = Seq (Lit ''content='') (quoted_group 1)"

text \<open>The shape shared by three of the helpers: the first match of \<open>inner\<close> in the
  matched text, its group 1 trimmed.\<close>

definition add_trimmed_group :: "rx \<Rightarrow> string list \<Rightarrow> string \<Rightarrow> string list" where
  "add_trimmed_group inner names m =
     (case exec_grp inner 1 m of
        None \<Rightarrow> names
      | Some g \<Rightarrow> add_valid_name names (trim g))"

definition add_group_pattern :: "rx \<Rightarrow> string \<Rightarrow> string list \<Rightarrow> rx \<Rightarrow> string list" where
  "add_group_pattern inner html names pattern =
     foldl (add_trimmed_group inner) names (match_all pattern html)"

definition extractNamesFromMetaTags :: "string \<Rightarrow> string list \<Rightarrow> string list" where
  "extractNamesFromMetaTags html names = foldl (add_group_pattern content_rx html) names metaPatterns"

text \<open>\<open>itemprop="name"[^>]*>([^<]+)<\<close>, with or without the \<open>i\<close> flag.\<close>

definition itemprop_name :: "bool \<Rightarrow> rx" where
  "itemprop_name ic =
     Seqs [(if ic then Lit_i ''itemprop='' else Lit ''itemprop=''), Chr dquote,
           (if ic then Lit_i ''name'' else Lit ''name''), Chr dquote,
           Star (Cls not_gt), Chr CHR ''>'', Grp 1 (Plus not_lt), Chr CHR ''<'']"

text \<open>\<open>/itemtype="[^"]*Person"[^>]*>[\s\S]*?itemprop="name"[^>]*>([^<]+)</gi\<close>\<close>

definition schemaOrgPattern :: rx where
  "schemaOrgPattern =
     Seqs [Lit_i ''itemtype='', Chr dquote, Star (Cls not_dquote), Lit_i ''Person'', Chr dquote,
           Star (Cls not_gt), Chr CHR ''>'', Star_lazy any_char, itemprop_name True]"

definition extractNamesFromSchemaOrg :: "string \<Rightarrow> string list \<Rightarrow> string list" where
  "extractNamesFromSchemaOrg html names = add_group_pattern (itemprop_name False) html names schemaOrgPattern"

text \<open>\<open>>([A-Z][a-z]+\s+[A-Z][a-z]+)<\<close>, with or without the \<open>i\<close> flag.\<close>

definition tag_body_name :: "bool \<Rightarrow> rx" where
  "tag_body_name ic =
     Seqs [Chr CHR ''>'', Grp 1 (Seqs [Up ic, Plus (Lo ic), ws_plus, Up ic, Plus (Lo ic)]), Chr CHR ''<'']"

text \<open>\<open>(?:author|name|person|contact)\<close>\<close>

definition person_word :: rx where
  "person_word = Alts [Lit_i ''author'', Lit_i ''name'', Lit_i ''person'', Lit_i ''contact'']"

text \<open>\<open>attr="[^"]*w[^"]*"[^>]*\<close> followed by the tag body.\<close>

definition attr_with :: "string \<Rightarrow> rx \<Rightarrow> rx" where
  "attr_with attr w =
     Seqs [Lit_i attr, Chr CHR ''='', Chr dquote, Star (Cls not_dquote), w, Star (Cls not_dquote), Chr dquote,
           Star (Cls not_gt), tag_body_name True]"

definition microdataPatterns :: "rx list" where
  \<open>microdataPatterns =
     [ \<comment> \<open>\<open>/<[^>]+class="[^"]*(?:author|name|person|contact)[^"]*"[^>]*>([A-Z][a-z]+\s+[A-Z][a-z]+)</gi\<close>\<close>
       Seqs [Chr CHR ''<'', Plus (Cls not_gt), attr_with ''class'' person_word],
       \<comment> \<open>\<open>/<[^>]+id="[^"]*(?:author|name|person|contact)[^"]*"[^>]*>([A-Z][a-z]+\s+[A-Z][a-z]+)</gi\<close>\<close>
       Seqs [Chr CHR ''<'', Plus (Cls not_gt), attr_with ''id'' person_word],
       \<comment> \<open>\<open>/<span[^>]+class="[^"]*name[^"]*"[^>]*>([A-Z][a-z]+\s+[A-Z][a-z]+)</gi\<close>\<close>
       Seqs [Lit_i ''<span'', Plus (Cls not_gt), attr_with ''class'' (Lit_i ''name'')] ]\<close>

definition extractNamesFromMicrodata :: "string \<Rightarrow> string list \<Rightarrow> string list" where
  "extractNamesFromMicrodata html names =
     foldl (add_group_pattern (tag_body_name False) html) names microdataPatterns"

text \<open>\<open>"name":\s*"([^"]+)"[^}]*\<close>\<close>

definition json_name_then :: rx where
  "json_name_then = Seqs [json_key ''name'', quoted_group 1, Star not_brace]"

definition socialPatterns :: "rx list" where
  \<open>socialPatterns =
     [ \<comment> \<open>\<open>/linkedin\.com\/in\/([A-Za-z-]+)/gi\<close>\<close>
       Seqs [Lit_i ''linkedin.com/in/'', Grp 1 (Plus (Cls (\<lambda>c. is_alpha c \<or> c = CHR ''-'')))],
       \<comment> \<open>\<open>/"name":\s*"([^"]+)"[^}]*"@type":\s*"Person"/gi\<close>\<close>
       Seqs [json_name_then, type_person],
       \<comment> \<open>\<open>/twitter\.com\/([A-Za-z0-9_]+)/gi\<close>\<close>
       Seqs [Lit_i ''twitter.com/'', Grp 1 (Plus (Cls is_word))],
       \<comment> \<open>\<open>/"name":\s*"([^"]+)"[^}]*twitter/gi\<close>\<close>
       Seqs [json_name_then, Lit_i ''twitter''] ]\<close>

text \<open>\<open>/"([^"]+)"/\<close> and \<open>/[-_]/g\<close>\<close>

definition dash_or_underscore :: rx where
  "dash_or_underscore = Cls (\<lambda>c. c = CHR ''-'' \<or> c = CHR ''_'')"

definition add_profile_match :: "string list \<Rightarrow> string \<Rightarrow> string list" where
  "add_profile_match names m =
     (case exec_grp (quoted_group 1) 1 m of
        None \<Rightarrow> names
      | Some g \<Rightarrow> add_valid_name names (replace_all dash_or_underscore one_space g))"

definition add_profile_pattern :: "string \<Rightarrow> string list \<Rightarrow> rx \<Rightarrow> string list" where
  "add_profile_pattern html names pattern = foldl add_profile_match names (match_all pattern html)"

definition extractNamesFromSocialProfiles :: "string \<Rightarrow> string list \<Rightarrow> string list" where
  "extractNamesFromSocialProfiles html names = foldl (add_profile_pattern html) names socialPatterns"

subsection \<open>\<open>extractNames\<close>\<close>

text \<open>\<open>names_found\<close> is the set \<open>names\<close> when the post-processing starts.\<close>

definition names_found :: "string \<Rightarrow> string \<Rightarrow> string list" where
  "names_found text html =
     (if html \<noteq> [] then
        extractNamesFromSocialProfiles html
          (extractNamesFromMicrodata html
            (extractNamesFromSchemaOrg html
              (extractNamesFromMetaTags html
                (extractNamesFromStructuredData html (names_from_text text)))))
      else names_from_text text)"

text \<open>
  \<open>Array.prototype.sort\<close> with a comparator, as a stable insertion sort (the elements
  are inserted from the first to the last): \<open>a\<close> stays before \<open>b\<close> when \<open>cmp a b \<le> 0\<close>. The last key of the comparator of \<open>extractNames\<close> is
  \<open>a.localeCompare(b)\<close>, the collation of the host's locale; it is the parameter
  \<open>localeCompare\<close> here.
\<close>

fun insert_cmp :: "('a \<Rightarrow> 'a \<Rightarrow> real) \<Rightarrow> 'a \<Rightarrow> 'a list \<Rightarrow> 'a list" where
  "insert_cmp cmp x [] = [x]"
| "insert_cmp cmp x (y # ys) = (if cmp x y < 0 then x # y # ys else y # insert_cmp cmp x ys)"

definition sort_cmp :: "('a \<Rightarrow> 'a \<Rightarrow> real) \<Rightarrow> 'a list \<Rightarrow> 'a list" where
  "sort_cmp cmp xs = foldr (insert_cmp cmp) (rev xs) []"

definition compare_names :: "(string \<Rightarrow> string \<Rightarrow> int) \<Rightarrow> string \<Rightarrow> string \<Rightarrow> real" where
  "compare_names localeCompare a b =
     (if calculateNameConfidence a \<noteq> calculateNameConfidence b
      then calculateNameConfidence b - calculateNameConfidence a
      else if length (split a CHR '' '') \<noteq> length (split b CHR '' '')
      then real (length (split b CHR '' '')) - real (length (split a CHR '' ''))
      else real_of_int (localeCompare a b))"

definition valid_name :: "string \<Rightarrow> bool" where
  "valid_name name = (name \<noteq> [] \<and> isValidName name)"

definition not_name_false_positive :: "string \<Rightarrow> bool" where
  "not_name_false_positive name = (\<not> isNameFalsePositive name)"

definition extractNames :: "(string \<Rightarrow> string \<Rightarrow> int) \<Rightarrow> string \<Rightarrow> string \<Rightarrow> string list" where
  "extractNames localeCompare text html =
     take 8
       (sort_cmp (compare_names localeCompare)
         (dedup (filter not_name_false_positive
           (filter valid_name
             (map normalizeName (names_found text html))))))"

section \<open>EnhancedWebScraper: e-mail addresses\<close>

text \<open>
  \<open>/\b[A-Za-z0-9.!#$%&'*+\/=?^_`{|}~-]+@[A-Za-z0-9](?:[A-Za-z0-9-]{0,61}[A-Za-z0-9])?(?:\.[A-Za-z0-9](?:[A-Za-z0-9-]{0,61}[A-Za-z0-9])?)*\b/g\<close>
\<close>

definition enhanced_local_cls :: "char \<Rightarrow> bool" where
  "enhanced_local_cls c =
     (is_alpha c \<or> is_digit c \<or> one_of ''.!#$%&*+/=?^_{|}~-'' c \<or> c = squote \<or> c = backtick)"

definition alnum :: "char \<Rightarrow> bool" where
  "alnum c = (is_alpha c \<or> is_digit c)"

definition alnum_hyphen :: "char \<Rightarrow> bool" where
  "alnum_hyphen c = (is_alpha c \<or> is_digit c \<or> c = CHR ''-'')"

definition enhanced_label_rx :: rx where
  "enhanced_label_rx = Seq (Cls alnum) (Opt (Seq (Range 0 61 (Cls alnum_hyphen)) (Cls alnum)))"

definition enhanced_emailPattern :: rx where
  "enhanced_emailPattern =
     Seqs [WordB, Plus (Cls enhanced_local_cls), Chr CHR ''@'', enhanced_label_rx,
           Star (Seq (Chr CHR ''.'') enhanced_label_rx), WordB]"

text \<open>The list \<open>falsePositives\<close> of \<open>EnhancedWebScraper.isEmailFalsePositive\<close>:
  \<open>/@example\./i\<close>, \<open>/@test\./i\<close>, \<open>/@localhost/i\<close>, \<open>/noreply@/i\<close>, \<open>/no-reply@/i\<close>,
  \<open>/donotreply@/i\<close>, \<open>/@domain\./i\<close>, \<open>/@your-domain\./i\<close> and
  \<open>/\.(png|jpg|jpeg|gif|pdf|doc|docx|zip|rar)$/i\<close>.\<close>

definition enhanced_falsePositives :: "rx list" where
  "enhanced_falsePositives =
     [Seqs [Chr CHR ''@'', Lit_i ''example'', Chr CHR ''.''],
      Seqs [Chr CHR ''@'', Lit_i ''test'', Chr CHR ''.''],
      Seqs [Chr CHR ''@'', Lit_i ''localhost''],
      Seqs [Lit_i ''noreply'', Chr CHR ''@''],
      Seqs [Lit_i ''no'', Chr CHR ''-'', Lit_i ''reply'', Chr CHR ''@''],
      Seqs [Lit_i ''donotreply'', Chr CHR ''@''],
      Seqs [Chr CHR ''@'', Lit_i ''domain'', Chr CHR ''.''],
      Seqs [Chr CHR ''@'', Lit_i ''your'', Chr CHR ''-'', Lit_i ''domain'', Chr CHR ''.''],
      Seqs [Chr CHR ''.'',
            Alts [Lit_i ''png'', Lit_i ''jpg'', Lit_i ''jpeg'', Lit_i ''gif'', Lit_i ''pdf'',
                  Lit_i ''doc'', Lit_i ''docx'', Lit_i ''zip'', Lit_i ''rar''], Eol]]"

definition matches_email :: "string \<Rightarrow> rx \<Rightarrow> bool" where
  "matches_email email pattern = test pattern email"

definition enhanced_isEmailFalsePositive :: "string \<Rightarrow> bool" where
  "enhanced_isEmailFalsePositive email = list_ex (matches_email email) enhanced_falsePositives"

text \<open>The callback of \<open>textMatches.forEach\<close>.\<close>

definition enhanced_add_text_match :: "string list \<Rightarrow> string \<Rightarrow> string list" where
  "enhanced_add_text_match emails email =
     (if \<not> enhanced_isEmailFalsePositive email then set_add emails (toLowerCase email) else emails)"

text \<open>The callback of \<open>$('a[href^="mailto:"]').each\<close>, given the \<open>href\<close> of the anchor:
  \<open>href.replace(/^mailto:/i, '').split('?')[0]\<close>, kept when it is not empty and not a
  false positive.\<close>

definition enhanced_add_mailto :: "string list \<Rightarrow> string \<Rightarrow> string list" where
  "enhanced_add_mailto emails href =
     (let email = hd (split (replace_first EMAIL_URL_PREFIX_REGEX (\<lambda>caps. []) href) CHR ''?'')
      in if email \<noteq> [] \<and> \<not> enhanced_isEmailFalsePositive email
         then set_add emails (toLowerCase email) else emails)"

text \<open>
  The HTML is parsed by the library cheerio, which is not part of the repository; the
  parameter \<open>mailto_hrefs\<close> gives, for an HTML text, the \<open>href\<close> attributes of the anchors
  that the selector \<open>a[href^="mailto:"]\<close> finds in it, in document order.
\<close>

definition enhanced_extractEmails ::
  "(string \<Rightarrow> string list) \<Rightarrow> string \<Rightarrow> string \<Rightarrow> string list" where
  "enhanced_extractEmails mailto_hrefs text html =
     take 10
       (if html \<noteq> []
        then foldl enhanced_add_mailto
               (foldl enhanced_add_text_match [] (match_all enhanced_emailPattern text))
               (mailto_hrefs html)
        else foldl enhanced_add_text_match [] (match_all enhanced_emailPattern text))"

section \<open>The extractors on arbitrary JavaScript values\<close>

text \<open>
  The extractors are methods of a JavaScript class and can be called with any values.
  They use \<open>text\<close> only as the receiver of \<open>text.match(pattern)\<close>, and \<open>html\<close> only in the
  test \<open>if (html)\<close> and as the receiver of \<open>html.match(pattern)\<close>. So a value is modelled
  by what these two uses see of it: the primitive values, and the objects. An object is
  truthy; its \<open>match\<close> property either is not callable (\<open>JObject None\<close>: a plain object,
  an array, a \<open>Number\<close> object), or answers as the \<open>match\<close> of a string \<open>s\<close> does
  (\<open>JObject (Some s)\<close>: the \<open>String\<close> object \<open>new String(s)\<close>). An object whose \<open>match\<close>
  method answers otherwise is outside the model. Of a number only being zero matters
  (\<open>NaN\<close> is falsy as zero is).
\<close>

datatype jsval = JUndefined | JNull | JBool bool | JNumber int | JString string
  | JObject "string option"

datatype js_error = TypeError

fun truthy :: "jsval \<Rightarrow> bool" where
  "truthy JUndefined = False"
| "truthy JNull = False"
| "truthy (JBool b) = b"
| "truthy (JNumber n) = (n \<noteq> 0)"
| "truthy (JString s) = (s \<noteq> [])"
| "truthy (JObject m) = True"

text \<open>
  The receiver of \<open>v.match(pattern)\<close>: the string whose \<open>match\<close> is called, or the
  \<open>TypeError\<close> of the call. \<open>undefined\<close> and \<open>null\<close> have no properties; a boolean, a
  number and an object without the method give \<open>undefined\<close> for \<open>v.match\<close>, which is not
  a function.
\<close>

fun receiver :: "jsval \<Rightarrow> js_error + string" where
  "receiver (JString s) = Inr s"
| "receiver (JObject (Some s)) = Inr s"
| "receiver (JObject None) = Inl TypeError"
| "receiver JUndefined = Inl TypeError"
| "receiver JNull = Inl TypeError"
| "receiver (JBool b) = Inl TypeError"
| "receiver (JNumber n) = Inl TypeError"

text \<open>\<open>html = ''\<close> in the parameter list: the default replaces \<open>undefined\<close> only.\<close>

fun default_html :: "jsval \<Rightarrow> jsval" where
  "default_html JUndefined = JString []"
| "default_html v = v"

text \<open>
  The stage \<open>if (html) { ... html.match(...) ... }\<close> on a value: the string the HTML stage
  works on, or the error of its first \<open>html.match\<close>. A falsy value skips the stage, as
  the empty string does. (A \<open>String\<close> object of the empty string is truthy and runs the
  stage on the empty string, which adds nothing: the lemmas \<open>emails_from_html_empty\<close>,
  \<open>phones_from_html_empty\<close> and \<open>names_from_html_empty\<close>.)
\<close>

definition html_stage :: "jsval \<Rightarrow> js_error + string" where
  "html_stage v = (if truthy v then receiver v else Inr [])"

text \<open>
  A call of an extractor: the text stage calls \<open>text.match\<close> at its first pattern (the
  lists of patterns are not empty), the HTML stage follows.
\<close>

definition call_extractor ::
  "(string \<Rightarrow> string \<Rightarrow> string list) \<Rightarrow> jsval \<Rightarrow> jsval \<Rightarrow> js_error + string list" where
  "call_extractor f text html =
     (case receiver text of
        Inl e \<Rightarrow> Inl e
      | Inr t \<Rightarrow>
          (case html_stage (default_html html) of
             Inl e \<Rightarrow> Inl e
           | Inr h \<Rightarrow> Inr (f t h)))"

definition extractEmails_js :: "jsval \<Rightarrow> jsval \<Rightarrow> js_error + string list" where
  "extractEmails_js text html = call_extractor extractEmails text html"

definition extractPhoneNumbers_js :: "jsval \<Rightarrow> jsval \<Rightarrow> js_error + string list" where
  "extractPhoneNumbers_js text html = call_extractor extractPhoneNumbers text html"

definition extractNames_js ::
  "(string \<Rightarrow> string \<Rightarrow> int) \<Rightarrow> jsval \<Rightarrow> jsval \<Rightarrow> js_error + string list" where
  "extractNames_js localeCompare text html = call_extractor (extractNames localeCompare) text html"

section \<open>Auxiliary notions for the proofs\<close>

text \<open>Every element of a set of strings is in lower case.\<close>

definition all_lower :: "string list \<Rightarrow> bool" where
  "all_lower es = (\<forall>e \<in> set es. toLowerCase e = e)"



text \<open>A valid cleaned form is seven digits, or holds a plus sign.\<close>

definition seven_digits_or_plus :: "string \<Rightarrow> bool" where
  "seven_digits_or_plus c = ((length c = 7 \<and> list_all is_digit c) \<or> CHR ''+'' \<in> set c)"

text \<open>Every element of the set \<open>phones\<close> has a cleaned form that \<open>isValidPhoneNumber\<close> accepts.\<close>

definition all_valid_phones :: "string list \<Rightarrow> bool" where
  "all_valid_phones ps = (\<forall>p \<in> set ps. isValidPhoneNumber (cleanPhoneNumber p))"

text \<open>The contact line of the end-to-end scenario.\<close>

definition contact_text :: string where
  "contact_text = ''Contact John Smith at john.smith@company.com or call (555) 123-4567.''"

text \<open>A string without white space.\<close>

definition no_space :: "string \<Rightarrow> bool" where
  "no_space s = list_all (\<lambda>c. \<not> is_space c) s"

section \<open>Equations for evaluation\<close>

text \<open>
  The character classes, by the bits of the code unit (bit 0 first), and equality of
  lists that stops at the first difference. These equations are what the evaluation of
  the definitions on concrete inputs uses; they change no definition.
\<close>

lemma is_digit_code [code]:
  "is_digit (Char b0 b1 b2 b3 b4 b5 b6 b7) =
     (b4 \<and> b5 \<and> \<not> b6 \<and> \<not> b7 \<and> \<not> (b3 \<and> (b2 \<or> b1)))"
  by (auto simp add: is_digit_def)

lemma is_upper_code [code]:
  "is_upper (Char b0 b1 b2 b3 b4 b5 b6 b7) =
     (\<not> b5 \<and> b6 \<and> \<not> b7 \<and> (b0 \<or> b1 \<or> b2 \<or> b3 \<or> b4) \<and> \<not> (b4 \<and> b3 \<and> (b2 \<or> (b1 \<and> b0))))"
  by (auto simp add: is_upper_def)

lemma is_lower_code [code]:
  "is_lower (Char b0 b1 b2 b3 b4 b5 b6 b7) =
     (b5 \<and> b6 \<and> \<not> b7 \<and> (b0 \<or> b1 \<or> b2 \<or> b3 \<or> b4) \<and> \<not> (b4 \<and> b3 \<and> (b2 \<or> (b1 \<and> b0))))"
  by (auto simp add: is_lower_def)

lemma is_space_code [code]:
  "is_space (Char b0 b1 b2 b3 b4 b5 b6 b7) =
     ((\<not> b0 \<and> \<not> b1 \<and> \<not> b2 \<and> \<not> b3 \<and> \<not> b4 \<and> b5 \<and> \<not> b6) \<or>
      (\<not> b7 \<and> \<not> b6 \<and> \<not> b5 \<and> \<not> b4 \<and> b3 \<and> ((\<not> b2 \<and> (b0 \<or> b1)) \<or> (b2 \<and> \<not> b1))))"
  by (auto simp add: is_space_def)

lemma is_dot_code [code]:
  "is_dot (Char b0 b1 b2 b3 b4 b5 b6 b7) =
     (\<not> (\<not> b7 \<and> \<not> b6 \<and> \<not> b5 \<and> \<not> b4 \<and> b3 \<and> ((\<not> b2 \<and> b1 \<and> \<not> b0) \<or> (b2 \<and> \<not> b1 \<and> b0))))"
  by (auto simp add: is_dot_def)

lemma is_upper_l1_code [code]:
  "is_upper_l1 (Char b0 b1 b2 b3 b4 b5 b6 b7) =
     (is_upper (Char b0 b1 b2 b3 b4 b5 b6 b7) \<or>
      (b7 \<and> b6 \<and> \<not> b5 \<and> \<not> (b4 \<and> b2 \<and> b1 \<and> b0)))"
  by (auto simp add: is_upper_l1_def)

lemma is_lower_l1_code [code]:
  "is_lower_l1 (Char b0 b1 b2 b3 b4 b5 b6 b7) =
     (is_lower (Char b0 b1 b2 b3 b4 b5 b6 b7) \<or>
      (b7 \<and> b6 \<and> b5 \<and> \<not> (b4 \<and> b2 \<and> b1 \<and> b0)))"
  by (auto simp add: is_lower_l1_def)

lemma equal_list_lazy [code]:
  "HOL.equal (x # xs) (y # ys) = (if HOL.equal x y then HOL.equal xs ys else False)"
  "HOL.equal [] (y # ys) = False"
  "HOL.equal (x # xs) [] = False"
  "HOL.equal ([] :: 'a :: equal list) [] = True"
  by (simp_all add: equal)

section \<open>Properties\<close>

subsection \<open>Phone classification and confidence scores\<close>

text \<open>Deleting the characters of a class: \<open>s.replace(/[c]/g, '')\<close> is a filter.\<close>

lemma scan_cls_delete:
  "length a \<le> k \<Longrightarrow>
   replaced (\<lambda>caps. []) (scan (Suc k) (Cls p) fuel (Pos b a i caps)) = filter (\<lambda>c. \<not> p c) a"
proof (induction a arbitrary: k b i caps)
  case Nil
  then show ?case by simp
next
  case (Cons c cs)
  then obtain k' where k: "k = Suc k'" and len: "length cs \<le> k'"
    by (cases k) auto
  show ?case
  proof (cases "p c")
    case True
    then show ?thesis using Cons.IH [OF len] k by simp
  next
    case False
    then show ?thesis using Cons.IH [OF len] k by simp
  qed
qed

lemma replace_all_cls_delete: "replace_all (Cls p) (\<lambda>caps. []) s = filter (\<lambda>c. \<not> p c) s"
  unfolding replace_all_def scan_all_def by (rule scan_cls_delete) simp

lemma digits_only_filter: "digits_only phone = filter is_digit phone"
  by (simp add: digits_only_def replace_all_cls_delete)

lemma startsWith_plus_digits: "\<not> startsWith (filter is_digit phone) ''+''"
proof (cases "filter is_digit phone")
  case Nil
  then show ?thesis by simp
next
  case (Cons c cs)
  then have "c \<in> set (filter is_digit phone)" by simp
  then have "is_digit c" by simp
  then have "c \<noteq> CHR ''+''" by (auto simp: is_digit_def)
  with Cons show ?thesis by simp
qed

lemma classifyPhoneType_never_international: "classifyPhoneType phone \<noteq> ''international''"
  using startsWith_plus_digits [of phone]
  by (simp add: classifyPhoneType_def Let_def digits_only_filter)

text \<open>
  Claim C9. \<open>classifyPhoneType\<close> is said to answer \<open>international\<close> for a number with a
  leading \<open>+\<close> that is neither toll-free nor of the US lengths. The function strips
  every character that is not a digit before it looks for the \<open>+\<close>, so the branch
  is never taken: such a number is classified \<open>other\<close>.
\<close>

theorem classifyPhoneType_leading_plus: "classifyPhoneType ''+442079460958'' = ''other''"
  by code_simp

text \<open>
  Claim C7. Each of the three confidence functions returns a score between 0.1 and 1.0,
  for every input string.
\<close>

theorem confidence_bounds:
  "1 / 10 \<le> calculateEmailConfidence email \<and> calculateEmailConfidence email \<le> 1 \<and>
   1 / 10 \<le> calculatePhoneConfidence phone \<and> calculatePhoneConfidence phone \<le> 1 \<and>
   1 / 10 \<le> calculateNameConfidence name \<and> calculateNameConfidence name \<le> 1"
  by (simp add: calculateEmailConfidence_def calculatePhoneConfidence_def
      calculateNameConfidence_def Let_def)

theorem confidence_bounds_witness:
  "1 / 10 \<le> calculateEmailConfidence ''info@gmail.com'' \<and>
   calculateEmailConfidence ''info@gmail.com'' \<le> 1 \<and>
   1 / 10 \<le> calculatePhoneConfidence ''(415) 234-5678'' \<and>
   calculatePhoneConfidence ''(415) 234-5678'' \<le> 1 \<and>
   1 / 10 \<le> calculateNameConfidence ''Ada Lovelace'' \<and>
   calculateNameConfidence ''Ada Lovelace'' \<le> 1"
  using confidence_bounds [of "''info@gmail.com''" "''(415) 234-5678''" "''Ada Lovelace''"] .

subsection \<open>E-mail extraction\<close>

lemma set_dedup_acc: "set (dedup_acc seen xs) = set xs - set seen"
  by (induction xs arbitrary: seen) auto

lemma distinct_dedup_acc: "distinct (dedup_acc seen xs)"
  by (induction xs arbitrary: seen) (auto simp: set_dedup_acc)


lemma set_dedup: "set (dedup xs) = set xs"
  by (simp add: dedup_def set_dedup_acc)

lemma distinct_dedup: "distinct (dedup xs)"
  by (simp add: dedup_def distinct_dedup_acc)


lemma extractEmails_filtered:
  "set (extractEmails text html) \<subseteq>
     {e. isValidEmail e \<and> \<not> isEmailFalsePositive e \<and> isValidEmailDomain e}"
proof -
  have "set (take 15 xs) \<subseteq> set xs" for xs :: "string list"
    by (rule set_take_subset)
  then show ?thesis
    unfolding extractEmails_def
    by (rule subset_trans) (auto simp: set_dedup not_email_false_positive_def)
qed

text \<open>
  Claim C3. Every address in the list \<open>extractEmails\<close> returns passes \<open>isValidEmail\<close>,
  is not a false positive for \<open>isEmailFalsePositive\<close> and passes \<open>isValidEmailDomain\<close>,
  for every text and every HTML.
\<close>

theorem extractEmails_sound:
  "\<forall>e \<in> set (extractEmails text html).
     isValidEmail e \<and> \<not> isEmailFalsePositive e \<and> isValidEmailDomain e"
  using extractEmails_filtered [of "text" html] by blast

theorem extractEmails_sound_witness:
  "''alice@acme.org'' \<in> set (extractEmails ''mail alice@acme.org'' '''') \<and>
   isValidEmail ''alice@acme.org'' \<and> \<not> isEmailFalsePositive ''alice@acme.org'' \<and>
   isValidEmailDomain ''alice@acme.org''"
proof -
  have mem: "''alice@acme.org'' \<in> set (extractEmails ''mail alice@acme.org'' '''')"
    by code_simp
  with extractEmails_sound [of "''mail alice@acme.org''" "''''"] show ?thesis
    by blast
qed

text \<open>Every string the set \<open>emails\<close> receives has been through \<open>toLowerCase\<close>.\<close>

lemma lower_char_idem_all: "list_all (\<lambda>c. lower_char (lower_char c) = lower_char c) Enum.enum"
  by code_simp

lemma lower_char_idem: "lower_char (lower_char c) = lower_char c"
proof -
  have "c \<in> set Enum.enum" by (simp add: enum_UNIV)
  with lower_char_idem_all show ?thesis by (simp add: list_all_iff)
qed

lemma toLowerCase_idem: "toLowerCase (toLowerCase s) = toLowerCase s"
  by (simp add: toLowerCase_def lower_char_idem)

lemma all_lower_set_add: "all_lower es \<Longrightarrow> all_lower (set_add es (toLowerCase e))"
  by (auto simp: all_lower_def set_add_def toLowerCase_idem)

lemma all_lower_foldl:
  assumes "\<And>es x. all_lower es \<Longrightarrow> all_lower (f es x)"
  shows "all_lower es \<Longrightarrow> all_lower (foldl f es xs)"
  by (induction xs arbitrary: es) (auto intro: assms)

lemma all_lower_add_text_match: "all_lower es \<Longrightarrow> all_lower (add_text_match es x)"
  by (simp add: add_text_match_def Let_def all_lower_set_add)

lemma all_lower_add_text_pattern: "all_lower es \<Longrightarrow> all_lower (add_text_pattern t es p)"
  unfolding add_text_pattern_def by (rule all_lower_foldl) (rule all_lower_add_text_match)

lemma all_lower_Nil: "all_lower []"
  by (simp add: all_lower_def)

lemma all_lower_emails_from_text: "all_lower (emails_from_text t)"
  unfolding emails_from_text_def
  by (rule all_lower_foldl [OF all_lower_add_text_pattern all_lower_Nil])

lemma all_lower_add_lower: "all_lower es \<Longrightarrow> all_lower (add_lower es x)"
  by (simp add: add_lower_def all_lower_set_add)

lemma all_lower_add_if_valid: "all_lower es \<Longrightarrow> all_lower (add_if_valid es x)"
  by (simp add: add_if_valid_def all_lower_add_lower)

lemma all_lower_add_mailto_match: "all_lower es \<Longrightarrow> all_lower (add_mailto_match es x)"
  by (simp add: add_mailto_match_def all_lower_add_if_valid split: option.splits)

lemma all_lower_add_inner_match: "all_lower es \<Longrightarrow> all_lower (add_inner_match r es x)"
  by (simp add: add_inner_match_def all_lower_add_if_valid split: option.splits)

lemma all_lower_add_html_pattern: "all_lower es \<Longrightarrow> all_lower (add_html_pattern r h es p)"
  unfolding add_html_pattern_def by (rule all_lower_foldl) (rule all_lower_add_inner_match)

lemma all_lower_emails_from_html: "all_lower es \<Longrightarrow> all_lower (emails_from_html es h)"
  unfolding emails_from_html_def
  by (intro all_lower_foldl all_lower_add_html_pattern all_lower_add_mailto_match
      all_lower_add_lower)

lemma all_lower_emails_found: "all_lower (emails_found t h)"
  by (simp add: emails_found_def all_lower_emails_from_html all_lower_emails_from_text)

lemma extractEmails_subset_found: "set (extractEmails t h) \<subseteq> set (emails_found t h)"
proof -
  have "set (take 15 xs) \<subseteq> set xs" for xs :: "string list"
    by (rule set_take_subset)
  then show ?thesis
    unfolding extractEmails_def
    by (rule subset_trans) (auto simp: set_dedup)
qed

lemma extractEmails_distinct: "distinct (extractEmails t h)"
  by (simp add: extractEmails_def distinct_dedup)



text \<open>
  Claim C6, as amended. The list \<open>extractEmails\<close> returns has no duplicates and every
  value in it is in lower case, so an address written in several cases yields at most
  one record; the address \<open>a@b.com\<close> of the claim yields none, because its one-letter
  local part and domain make it a false positive.
\<close>

theorem extractEmails_dedup:
  "distinct (extractEmails t h) \<and>
   (\<forall>e \<in> set (extractEmails t h). toLowerCase e = e) \<and>
   ''a@b.com'' \<notin> set (extractEmails t h)"
proof -
  have fp: "isEmailFalsePositive ''a@b.com''"
    by code_simp
  have "\<forall>e \<in> set (extractEmails t h). toLowerCase e = e"
    using all_lower_emails_found [of t h] extractEmails_subset_found [of t h]
    by (auto simp: all_lower_def)
  moreover have "''a@b.com'' \<notin> set (extractEmails t h)"
    using extractEmails_filtered [of t h] fp by auto
  ultimately show ?thesis
    by (simp add: extractEmails_distinct)
qed

theorem extractEmails_dedup_witness:
  "distinct (extractEmails ''Alice@Acme.org alice@acme.org ALICE@ACME.ORG'' '''') \<and>
   ''alice@acme.org'' \<in> set (extractEmails ''Alice@Acme.org alice@acme.org ALICE@ACME.ORG'' '''') \<and>
   toLowerCase ''alice@acme.org'' = ''alice@acme.org''"
proof -
  have "extractEmails ''Alice@Acme.org alice@acme.org ALICE@ACME.ORG'' '''' = [''alice@acme.org'']"
    by code_simp
  with extractEmails_dedup [of "''Alice@Acme.org alice@acme.org ALICE@ACME.ORG''" "''''"]
  show ?thesis by simp
qed

theorem extractEmails_dedup_counterexample:
  "extractEmails ''a@b.com A@B.COM a@b.com A@B.COM'' '''' = []"
  by code_simp


subsection \<open>The two e-mail extractors\<close>

text \<open>
  Claim C10. \<open>EnhancedWebScraper.extractEmails\<close> applies its list of false-positive
  patterns and no structural validation: for the text \<open>mail foo@bar now\<close> it returns
  \<open>foo@bar\<close>, whose domain part \<open>bar\<close> has no dot and which \<open>WebScraper.isValidEmail\<close>
  rejects; \<open>WebScraper.extractEmails\<close> returns nothing for that text, so the two
  extractors are not extensionally equal.
\<close>

theorem extractors_differ:
  "enhanced_extractEmails mailto_hrefs ''mail foo@bar now'' [] = [''foo@bar''] \<and>
   nth_opt (split ''foo@bar'' CHR ''@'') 1 = Some ''bar'' \<and>
   \<not> includes_str ''bar'' ''.'' \<and>
   \<not> isValidEmail ''foo@bar'' \<and>
   enhanced_extractEmails mailto_hrefs ''mail foo@bar now'' [] \<noteq> extractEmails ''mail foo@bar now'' []"
proof -
  have e: "enhanced_extractEmails mailto_hrefs ''mail foo@bar now'' [] = [''foo@bar'']"
    by code_simp
  have w: "extractEmails ''mail foo@bar now'' [] = []"
    by code_simp
  have d: "nth_opt (split ''foo@bar'' CHR ''@'') 1 = Some ''bar''"
    by code_simp
  have n: "\<not> includes_str ''bar'' ''.''"
    by code_simp
  have v: "\<not> isValidEmail ''foo@bar''"
    by code_simp
  show ?thesis using e w d n v by simp
qed

theorem extractors_differ_witness:
  "enhanced_extractEmails (\<lambda>html. []) ''mail foo@bar now'' [] \<noteq> extractEmails ''mail foo@bar now'' []"
  using extractors_differ [of "\<lambda>html. []"] by blast

subsection \<open>Phone numbers\<close>

lemma cleanPhoneNumber_filter: "cleanPhoneNumber phone = filter digit_or_plus phone"
  by (simp add: cleanPhoneNumber_def replace_all_cls_delete not_digit_or_plus_def)

text \<open>A greedy quantifier over a class, on a text of that class, reaches the end.\<close>

lemma rep_iter_cls_all:
  "list_all p a \<Longrightarrow> m \<le> length a \<Longrightarrow> length a < fuel \<Longrightarrow>
   Pos (rev a @ b) [] (i + int (length a)) caps
     \<in> set (rep_iter fuel (step_cls p) True m None (Pos b a i caps))"
proof (induction a arbitrary: fuel m b i)
  case Nil
  then obtain k where "fuel = Suc k" by (cases fuel) auto
  with Nil show ?case by simp
next
  case (Cons c cs)
  then obtain k where k: "fuel = Suc k" and lk: "length cs < k"
    by (cases fuel) auto
  from Cons.prems have pc: "p c" and pcs: "list_all p cs" by simp_all
  show ?case
  proof (cases m)
    case 0
    have "Pos (rev cs @ c # b) [] (i + 1 + int (length cs)) caps
        \<in> set (rep_iter k (step_cls p) True 0 None (Pos (c # b) cs (i + 1) caps))"
      by (rule Cons.IH [OF pcs _ lk]) simp
    with 0 k pc show ?thesis by (simp add: add.assoc)
  next
    case (Suc m')
    with Cons.prems have "m' \<le> length cs" by simp
    then have "Pos (rev cs @ c # b) [] (i + 1 + int (length cs)) caps
        \<in> set (rep_iter k (step_cls p) True m' None (Pos (c # b) cs (i + 1) caps))"
      by (rule Cons.IH [OF pcs _ lk])
    with Suc k pc show ?thesis by (simp add: add.assoc)
  qed
qed

lemma test_skipRegex_digits:
  assumes "list_all is_digit c" and "8 \<le> length c"
  shows "test skipRegex c"
proof -
  define fuel where "fuel = fuel_for skipRegex c"
  have fuel: "length c < fuel"
    by (simp add: fuel_def fuel_for_def)
  define st where "st = Pos [] c 0 []"
  have cls: "rxm (Cls is_digit) fuel = step_cls is_digit"
    by (rule ext) simp
  have "Pos (rev c @ []) [] (0 + int (length c)) []
      \<in> set (rep_iter fuel (step_cls is_digit) True 8 None (Pos [] c 0 []))"
    by (rule rep_iter_cls_all [OF assms fuel])
  then have "rxm (Seqs [Bol, AtLeast 8 (Cls is_digit), Eol]) fuel st \<noteq> []"
    by (auto simp: AtLeast_def st_def cls intro!: bexI [of _ "Pos (rev c) [] (int (length c)) []"])
  then have "rxm skipRegex fuel st \<noteq> []"
    by (simp add: skipRegex_def)
  then obtain st' sts where "rxm skipRegex fuel st = st' # sts"
    by (cases "rxm skipRegex fuel st") auto
  then show ?thesis
    by (cases st') (simp add: test_def exec_def scan_all_def fuel_def st_def)
qed

lemma isValidPhoneNumber_not_bare:
  "list_all is_digit c \<Longrightarrow> 8 \<le> length c \<Longrightarrow> \<not> isValidPhoneNumber c"
  by (simp add: isValidPhoneNumber_def test_skipRegex_digits)

lemma isValidPhoneNumber_length: "isValidPhoneNumber c \<Longrightarrow> 7 \<le> length c"
  by (auto simp: isValidPhoneNumber_def split: if_splits)

lemma digit_or_plus_all_digits:
  "list_all digit_or_plus c \<Longrightarrow> CHR ''+'' \<notin> set c \<Longrightarrow> list_all is_digit c"
  by (induction c) (auto simp: digit_or_plus_def)

lemma valid_clean_shape:
  assumes "isValidPhoneNumber (cleanPhoneNumber p)"
  shows "seven_digits_or_plus (cleanPhoneNumber p)"
proof (cases "CHR ''+'' \<in> set (cleanPhoneNumber p)")
  case True
  then show ?thesis by (simp add: seven_digits_or_plus_def)
next
  case False
  have "list_all digit_or_plus (cleanPhoneNumber p)"
    by (simp add: cleanPhoneNumber_filter list_all_iff)
  with False have d: "list_all is_digit (cleanPhoneNumber p)"
    by (rule digit_or_plus_all_digits [rotated])
  have "\<not> 8 \<le> length (cleanPhoneNumber p)"
    using isValidPhoneNumber_not_bare [OF d] assms by blast
  with isValidPhoneNumber_length [OF assms] d show ?thesis
    by (simp add: seven_digits_or_plus_def)
qed

lemma not_space_digit_or_plus_all:
  "list_all (\<lambda>c. digit_or_plus c \<longrightarrow> \<not> is_space c) Enum.enum"
  by code_simp

lemma not_space_digit_or_plus: "digit_or_plus c \<Longrightarrow> \<not> is_space c"
proof -
  have "c \<in> set Enum.enum" by (simp add: enum_UNIV)
  with not_space_digit_or_plus_all show "digit_or_plus c \<Longrightarrow> \<not> is_space c"
    by (simp add: list_all_iff)
qed

lemma filter_dropWhile_space: "filter digit_or_plus (dropWhile is_space s) = filter digit_or_plus s"
  by (induction s) (auto dest: not_space_digit_or_plus)

lemma cleanPhoneNumber_trim: "cleanPhoneNumber (trim p) = cleanPhoneNumber p"
proof -
  have "filter digit_or_plus (trim p) = rev (filter digit_or_plus (dropWhile is_space (rev (dropWhile is_space p))))"
    by (simp add: trim_def rev_filter)
  also have "\<dots> = rev (filter digit_or_plus (rev (dropWhile is_space p)))"
    by (simp only: filter_dropWhile_space)
  also have "\<dots> = filter digit_or_plus p"
    by (simp add: rev_filter [symmetric] filter_dropWhile_space)
  finally show ?thesis by (simp add: cleanPhoneNumber_filter)
qed

lemma filter_digit_or_plus_id: "filter digit_or_plus (filter digit_or_plus p) = filter digit_or_plus p"
  by simp

lemma clean_punct:
  "cleanPhoneNumber ''('' = []"
  "cleanPhoneNumber '') '' = []"
  "cleanPhoneNumber ''-'' = []"
  by (simp_all add: cleanPhoneNumber_filter digit_or_plus_def is_digit_def)

lemma clean_append: "cleanPhoneNumber (s @ t) = cleanPhoneNumber s @ cleanPhoneNumber t"
  by (simp add: cleanPhoneNumber_filter)

lemma clean_sub:
  "list_all digit_or_plus c \<Longrightarrow> cleanPhoneNumber (take n c) = take n c"
  "list_all digit_or_plus c \<Longrightarrow> cleanPhoneNumber (drop n c) = drop n c"
  "list_all digit_or_plus c \<Longrightarrow> cleanPhoneNumber (take n (drop k c)) = take n (drop k c)"
  by (auto simp: cleanPhoneNumber_filter list_all_iff filter_id_conv dest: in_set_takeD in_set_dropD)

lemma format_shape:
  assumes "seven_digits_or_plus (cleanPhoneNumber p)"
  shows "seven_digits_or_plus (cleanPhoneNumber (formatPhoneNumber p))"
proof -
  define c where "c = cleanPhoneNumber p"
  have all: "list_all digit_or_plus c"
    by (simp add: c_def cleanPhoneNumber_filter list_all_iff)
  show ?thesis
  proof (cases "length c = 10")
    case True
    have "cleanPhoneNumber (formatPhoneNumber p) = take 3 c @ take 3 (drop 3 c) @ drop 6 c"
      using True all
      by (simp add: formatPhoneNumber_def Let_def c_def [symmetric] substring_def
          substring_from_def clean_append clean_punct clean_sub
          del: append_Cons)
    also have "\<dots> = c"
      by (metis append_take_drop_id drop_drop numeral_Bit0 numeral_One one_add_one take_add add.commute)
    finally show ?thesis using assms by (simp add: c_def)
  next
    case False
    show ?thesis
    proof (cases "length c = 11 \<and> startsWith c ''1''")
      case True
      with False have "formatPhoneNumber p =
          ''+1 ('' @ substring (substring_from c 1) 0 3 @ '') '' @ substring (substring_from c 1) 3 6 @
          ''-'' @ substring_from (substring_from c 1) 6"
        by (simp add: formatPhoneNumber_def Let_def c_def [symmetric])
      then have "CHR ''+'' \<in> set (cleanPhoneNumber (formatPhoneNumber p))"
        by (simp add: cleanPhoneNumber_filter digit_or_plus_def)
      then show ?thesis by (simp add: seven_digits_or_plus_def)
    next
      case F2: False
      with False have "formatPhoneNumber p = trim p"
        by (auto simp add: formatPhoneNumber_def Let_def c_def [symmetric])
      with assms show ?thesis by (simp add: cleanPhoneNumber_trim)
    qed
  qed
qed

lemma all_valid_foldl:
  assumes "\<And>ps x. all_valid_phones ps \<Longrightarrow> all_valid_phones (f ps x)"
  shows "all_valid_phones ps \<Longrightarrow> all_valid_phones (foldl f ps xs)"
  by (induction xs arbitrary: ps) (auto intro: assms)

lemma all_valid_Nil: "all_valid_phones []"
  by (simp add: all_valid_phones_def)

lemma all_valid_add_text_phone: "all_valid_phones ps \<Longrightarrow> all_valid_phones (add_text_phone ps x)"
  by (auto simp: all_valid_phones_def add_text_phone_def set_add_def cleanPhoneNumber_trim)

lemma all_valid_add_phone_pattern: "all_valid_phones ps \<Longrightarrow> all_valid_phones (add_phone_pattern t ps r)"
  unfolding add_phone_pattern_def by (rule all_valid_foldl) (rule all_valid_add_text_phone)

lemma all_valid_phones_from_text: "all_valid_phones (phones_from_text t)"
  unfolding phones_from_text_def
  by (rule all_valid_foldl [OF all_valid_add_phone_pattern all_valid_Nil])

lemma all_valid_add_valid_phone: "all_valid_phones ps \<Longrightarrow> all_valid_phones (add_valid_phone ps x)"
  by (auto simp: all_valid_phones_def add_valid_phone_def set_add_def)

lemma all_valid_add_checked_phone: "all_valid_phones ps \<Longrightarrow> all_valid_phones (add_checked_phone ps x)"
  by (auto simp: all_valid_phones_def add_checked_phone_def set_add_def)

lemma all_valid_add_inner_phone: "all_valid_phones ps \<Longrightarrow> all_valid_phones (add_inner_phone r ps x)"
  by (simp add: add_inner_phone_def all_valid_add_checked_phone split: option.splits)

lemma all_valid_add_html_phone_pattern:
  "all_valid_phones ps \<Longrightarrow> all_valid_phones (add_html_phone_pattern r h ps q)"
  unfolding add_html_phone_pattern_def by (rule all_valid_foldl) (rule all_valid_add_inner_phone)

lemma all_valid_phones_from_html: "all_valid_phones ps \<Longrightarrow> all_valid_phones (phones_from_html ps h)"
  unfolding phones_from_html_def
  by (intro all_valid_foldl all_valid_add_html_phone_pattern all_valid_add_valid_phone)

lemma all_valid_phones_found: "all_valid_phones (phones_found t h)"
  by (simp add: phones_found_def all_valid_phones_from_html all_valid_phones_from_text)

lemma extractPhoneNumbers_origin:
  assumes "r \<in> set (extractPhoneNumbers t h)"
  obtains p where "r = formatPhoneNumber p" and "\<not> isPhoneFalsePositive p"
    and "isValidPhoneNumber (cleanPhoneNumber p)"
proof -
  from assms have "r \<in> set (dedup (sort (map formatPhoneNumber
         (filter not_phone_false_positive (phones_found t h)))))"
    unfolding extractPhoneNumbers_def by (rule in_set_takeD)
  then obtain p where "r = formatPhoneNumber p" "not_phone_false_positive p" "p \<in> set (phones_found t h)"
    by (auto simp: set_dedup)
  with all_valid_phones_found [of t h] that show thesis
    by (auto simp: all_valid_phones_def not_phone_false_positive_def)
qed

text \<open>
  Claim C2, as amended. \<open>isValidPhoneNumber\<close> rejects every cleaned form of eight or more
  bare digits. Hence every value in a list that \<open>extractPhoneNumbers\<close> returns has a
  cleaned form that is exactly seven digits, or that holds a plus sign, which need not
  be its first character: no plain number of 8 to 15 digits is returned.
\<close>

theorem phone_results_shape:
  "(\<forall>c. list_all is_digit c \<and> 8 \<le> length c \<longrightarrow> \<not> isValidPhoneNumber c) \<and>
   (\<forall>r \<in> set (extractPhoneNumbers t h).
      (length (cleanPhoneNumber r) = 7 \<and> list_all is_digit (cleanPhoneNumber r)) \<or>
      CHR ''+'' \<in> set (cleanPhoneNumber r))"
proof (intro conjI allI impI ballI)
  fix c assume "list_all is_digit c \<and> 8 \<le> length c"
  then show "\<not> isValidPhoneNumber c"
    by (simp add: isValidPhoneNumber_not_bare)
next
  fix r assume "r \<in> set (extractPhoneNumbers t h)"
  then obtain p where "r = formatPhoneNumber p" and "isValidPhoneNumber (cleanPhoneNumber p)"
    by (rule extractPhoneNumbers_origin)
  then have "seven_digits_or_plus (cleanPhoneNumber r)"
    by (simp add: format_shape valid_clean_shape)
  then show "(length (cleanPhoneNumber r) = 7 \<and> list_all is_digit (cleanPhoneNumber r)) \<or>
      CHR ''+'' \<in> set (cleanPhoneNumber r)"
    by (simp add: seven_digits_or_plus_def)
qed

theorem phone_results_shape_witness:
  "\<not> isValidPhoneNumber ''4152345678'' \<and>
   extractPhoneNumbers ''ring 246-8024 or +44 20 7946 0958'' [] = [''+44 20 7946 0958'', ''246-8024''] \<and>
   CHR ''+'' \<in> set (cleanPhoneNumber ''+44 20 7946 0958'') \<and>
   length (cleanPhoneNumber ''246-8024'') = 7 \<and> list_all is_digit (cleanPhoneNumber ''246-8024'')"
proof -
  have d: "list_all is_digit ''4152345678'' \<and> 8 \<le> length ''4152345678''"
    by code_simp
  have r: "extractPhoneNumbers ''ring 246-8024 or +44 20 7946 0958'' [] = [''+44 20 7946 0958'', ''246-8024'']"
    by code_simp
  have n: "CHR ''+'' \<notin> set (cleanPhoneNumber ''246-8024'')"
    by code_simp
  have m: "CHR ''+'' \<in> set (cleanPhoneNumber ''+44 20 7946 0958'')"
    by code_simp
  from phone_results_shape [of "''ring 246-8024 or +44 20 7946 0958''" "[]"] d r n m
  show ?thesis by auto
qed

text \<open>
  Claim C2 as stated fails where the plus sign stands inside the number: the unescaped
  dot of \<open>(-|.)\<close> in the parenthesised pattern lets \<open>(415) 234+5678\<close> match, and it is
  returned with a cleaned form of eleven characters that does not start with \<open>+\<close>.
\<close>

theorem phone_results_shape_counterexample:
  "extractPhoneNumbers ''(415) 234+5678'' [] = [''(415) 234+5678''] \<and>
   cleanPhoneNumber ''(415) 234+5678'' = ''415234+5678'' \<and>
   length (cleanPhoneNumber ''(415) 234+5678'') = 11 \<and>
   \<not> startsWith (cleanPhoneNumber ''(415) 234+5678'') ''+''"
  by code_simp

subsection \<open>The end-to-end scenario\<close>

text \<open>
  Claim C1. For the contact line of the scenario the extractors are said to return the
  address \<open>john.smith@company.com\<close>, a number with the digits \<open>5551234567\<close> and the name
  \<open>John Smith\<close>. They return no address, no number and the one name
  \<open>Contact John Smith\<close>: the false-positive filters list the domain \<open>company.com\<close>, the
  number \<open>5551234567\<close> and the name \<open>john smith\<close> as placeholders, and
  \<open>isValidPhoneNumber\<close> rejects the ten bare digits of the cleaned number.
\<close>

theorem contact_text_results:
  "extractEmails contact_text [] = [] \<and>
   extractPhoneNumbers contact_text [] = [] \<and>
   extractNames localeCompare contact_text [] = [''Contact John Smith''] \<and>
   isValidEmail ''john.smith@company.com'' \<and> isEmailFalsePositive ''john.smith@company.com'' \<and>
   \<not> isValidPhoneNumber (cleanPhoneNumber ''(555) 123-4567'') \<and>
   isPhoneFalsePositive ''(555) 123-4567'' \<and>
   isValidName ''John Smith'' \<and> isNameFalsePositive ''John Smith''"
proof -
  have "extractEmails contact_text [] = []"
    by code_simp
  moreover have "extractPhoneNumbers contact_text [] = []"
    by code_simp
  moreover have "names_found contact_text [] = [''Contact John Smith'']"
    by code_simp
  then have "extractNames localeCompare contact_text [] = [''Contact John Smith'']"
    unfolding extractNames_def by code_simp
  moreover have "isValidEmail ''john.smith@company.com'' \<and> isEmailFalsePositive ''john.smith@company.com''"
    by code_simp
  moreover have "\<not> isValidPhoneNumber (cleanPhoneNumber ''(555) 123-4567'') \<and>
     isPhoneFalsePositive ''(555) 123-4567''"
    by code_simp
  moreover have "isValidName ''John Smith'' \<and> isNameFalsePositive ''John Smith''"
    by code_simp
  ultimately show ?thesis by blast
qed

subsection \<open>Values that are not strings\<close>

text \<open>The empty text and the empty HTML yield nothing.\<close>

lemma no_text_no_emails: "extractEmails [] [] = []"
  by code_simp

lemma no_text_no_phones: "extractPhoneNumbers [] [] = []"
  by code_simp

lemma no_text_no_names_found: "names_found [] [] = []"
  by code_simp

lemma no_text_no_names: "extractNames localeCompare [] [] = []"
  by (simp add: extractNames_def no_text_no_names_found sort_cmp_def dedup_def)

text \<open>The HTML stages add nothing on the empty string, so they may be skipped for it.\<close>

lemma emails_from_html_empty: "emails_from_html emails [] = emails"
  by code_simp

lemma phones_from_html_empty: "phones_from_html phones [] = phones"
  by code_simp

lemma names_from_html_empty:
  "extractNamesFromSocialProfiles []
     (extractNamesFromMicrodata []
       (extractNamesFromSchemaOrg []
         (extractNamesFromMetaTags []
           (extractNamesFromStructuredData [] names)))) = names"
  by code_simp

text \<open>Each text stage has a first pattern, whose \<open>text.match\<close> is the first use of
  \<open>text\<close>.\<close>

lemma patterns_not_empty: "emailPatterns \<noteq> [] \<and> phonePatterns \<noteq> [] \<and> namePatterns \<noteq> []"
  by (simp add: emailPatterns_def phonePatterns_def PHONE_REGEX_STRINGS_def namePatterns_def)

text \<open>
  Claim C5, as amended. A text that is \<open>undefined\<close>, \<open>null\<close>, a boolean, a number or an
  object without a \<open>match\<close> method makes each extractor raise a \<open>TypeError\<close>, whatever the
  HTML; a \<open>String\<close> object is processed as the string it holds; the empty text with the
  empty or absent HTML yields the empty list.
\<close>

theorem extractors_on_js_values:
  "list_all (\<lambda>v. extractEmails_js v html = Inl TypeError \<and>
                 extractPhoneNumbers_js v html = Inl TypeError \<and>
                 extractNames_js localeCompare v html = Inl TypeError)
     [JUndefined, JNull, JBool b, JNumber n, JObject None] \<and>
   extractEmails_js (JObject (Some t)) html = extractEmails_js (JString t) html \<and>
   extractPhoneNumbers_js (JObject (Some t)) html = extractPhoneNumbers_js (JString t) html \<and>
   extractNames_js localeCompare (JObject (Some t)) html = extractNames_js localeCompare (JString t) html \<and>
   list_all (\<lambda>h. extractEmails_js (JString []) h = Inr [] \<and>
                 extractPhoneNumbers_js (JString []) h = Inr [] \<and>
                 extractNames_js localeCompare (JString []) h = Inr [])
     [JString [], JUndefined]"
  by (simp add: extractEmails_js_def extractPhoneNumbers_js_def extractNames_js_def
      call_extractor_def html_stage_def no_text_no_emails no_text_no_phones no_text_no_names)

text \<open>
  An absent text, a \<open>null\<close> text and a number as text raise a \<open>TypeError\<close>; no empty list
  is returned.
\<close>

theorem absent_text_counterexample:
  "extractEmails_js JUndefined JUndefined = Inl TypeError \<and>
   extractPhoneNumbers_js JNull JUndefined = Inl TypeError \<and>
   extractNames_js (\<lambda>a b. 0) (JNumber 42) JUndefined = Inl TypeError \<and>
   extractEmails_js JUndefined JUndefined \<noteq> Inr []"
  by (simp add: extractEmails_js_def extractPhoneNumbers_js_def extractNames_js_def
      call_extractor_def)

subsection \<open>De-obfuscation\<close>

text \<open>A scan that finds no match leaves every character in place.\<close>

lemma first_hit_hit_of: "first_hit (hit_of st st' # xs) \<noteq> None"
  by (cases st; cases st') simp

lemma scan_no_hit:
  "length a \<le> k \<Longrightarrow> first_hit (scan (Suc k) r fuel (Pos b a i caps)) = None \<Longrightarrow>
   scan (Suc k) r fuel (Pos b a i caps) = map Skip a"
proof (induction a arbitrary: k b i caps)
  case Nil
  show ?case
  proof (cases "rxm r fuel (Pos b [] i caps)")
    case Nil
    then show ?thesis by simp
  next
    case (Cons st' sts)
    with Nil.prems(2) first_hit_hit_of show ?thesis by simp
  qed
next
  case (Cons c cs)
  then obtain k' where k: "k = Suc k'" and len: "length cs \<le> k'"
    by (cases k) auto
  show ?case
  proof (cases "rxm r fuel (Pos b (c # cs) i caps)")
    case Nil
    with Cons.prems(2) have "first_hit (scan (Suc k') r fuel (Pos (c # b) cs (i + 1) caps)) = None"
      by (simp add: k)
    with Cons.IH [OF len] Nil show ?thesis by (simp add: k)
  next
    case (Cons st' sts)
    with Cons.prems(2) first_hit_hit_of show ?thesis by simp
  qed
qed

lemma replaced_skips: "replaced f (map Skip a) = a"
  by (induction a) simp_all

lemma replace_all_no_match:
  assumes "\<not> test r s"
  shows "replace_all r f s = s"
proof -
  from assms have "first_hit (scan (Suc (length s)) r (fuel_for r s) (Pos [] s 0 [])) = None"
    unfolding test_def exec_def scan_all_def by blast
  with scan_no_hit [OF order_refl]
  have "scan (Suc (length s)) r (fuel_for r s) (Pos [] s 0 []) = map Skip s" .
  then show ?thesis
    by (simp only: replace_all_def scan_all_def replaced_skips)
qed

lemma scan_no_match:
  assumes "\<And>c cs. Q (c # cs) \<Longrightarrow> Q cs"
    and "\<And>b a i caps. Q a \<Longrightarrow> rxm r fuel (Pos b a i caps) = []"
  shows "Q a \<Longrightarrow> length a \<le> k \<Longrightarrow> scan (Suc k) r fuel (Pos b a i caps) = map Skip a"
proof (induction a arbitrary: k b i caps)
  case Nil
  then show ?case by (simp add: assms(2))
next
  case (Cons c cs)
  then obtain k' where k: "k = Suc k'" and len: "length cs \<le> k'"
    by (cases k) auto
  from Cons.prems(1) have "Q cs" by (rule assms(1))
  from Cons.IH [OF this len] assms(2) [OF Cons.prems(1)] show ?case
    by (simp add: k)
qed

lemma ws_plus_no_space: "no_space a \<Longrightarrow> rxm ws_plus fuel (Pos b a i caps) = []"
  by (cases fuel; cases a) (simp_all add: ws_plus_def Plus_def no_space_def)

lemma no_space_tl: "no_space (c # cs) \<Longrightarrow> no_space cs"
  by (simp add: no_space_def)

lemma replace_all_spaced_at: "no_space s \<Longrightarrow> replace_all spaced_at_rx f s = s"
  unfolding replace_all_def scan_all_def
  by (subst scan_no_match [where Q = no_space])
    (simp_all add: no_space_tl spaced_at_rx_def ws_plus_no_space replaced_skips)

lemma replace_all_spaced_dot: "no_space s \<Longrightarrow> replace_all spaced_dot_rx f s = s"
  unfolding replace_all_def scan_all_def
  by (subst scan_no_match [where Q = no_space])
    (simp_all add: no_space_tl spaced_dot_rx_def ws_plus_no_space replaced_skips)

lemma replace_all_space: "no_space s \<Longrightarrow> replace_all (Cls is_space) (\<lambda>caps. []) s = s"
  by (simp add: replace_all_cls_delete no_space_def list_all_iff filter_id_conv)

lemma no_space_cleanObfuscatedEmail: "no_space (cleanObfuscatedEmail s)"
  by (simp add: cleanObfuscatedEmail_def replace_all_cls_delete no_space_def list_all_iff)

lemma cleanObfuscatedEmail_fixed:
  assumes "no_space r"
    and "\<not> test bracket_at_rx r" and "\<not> test bracket_dot_rx r"
    and "\<not> test paren_at_rx r" and "\<not> test paren_dot_rx r"
  shows "cleanObfuscatedEmail r = r"
  using assms
  by (simp add: cleanObfuscatedEmail_def replace_all_no_match replace_all_spaced_at
      replace_all_spaced_dot replace_all_space)

text \<open>
  Claim C4, as amended. The result of \<open>cleanObfuscatedEmail\<close> holds no white space; when
  none of the four bracket patterns (\<open>[at]\<close>, \<open>[dot]\<close>, \<open>(@)\<close>, \<open>(.)\<close>) matches it any more,
  cleaning it again returns it unchanged.
\<close>

theorem cleanObfuscatedEmail_idempotent:
  "\<not> test bracket_at_rx (cleanObfuscatedEmail s) \<Longrightarrow>
   \<not> test bracket_dot_rx (cleanObfuscatedEmail s) \<Longrightarrow>
   \<not> test paren_at_rx (cleanObfuscatedEmail s) \<Longrightarrow>
   \<not> test paren_dot_rx (cleanObfuscatedEmail s) \<Longrightarrow>
   cleanObfuscatedEmail (cleanObfuscatedEmail s) = cleanObfuscatedEmail s"
  by (rule cleanObfuscatedEmail_fixed [OF no_space_cleanObfuscatedEmail])

theorem cleanObfuscatedEmail_idempotent_witness:
  "cleanObfuscatedEmail ''John  [ at ] acme [DOT] org'' = ''John@acme.org'' \<and>
   cleanObfuscatedEmail (cleanObfuscatedEmail ''John  [ at ] acme [DOT] org'') = ''John@acme.org''"
proof -
  have r: "cleanObfuscatedEmail ''John  [ at ] acme [DOT] org'' = ''John@acme.org''"
    by code_simp
  have t: "\<not> test bracket_at_rx ''John@acme.org''" "\<not> test bracket_dot_rx ''John@acme.org''"
    "\<not> test paren_at_rx ''John@acme.org''" "\<not> test paren_dot_rx ''John@acme.org''"
    by code_simp+
  from cleanObfuscatedEmail_idempotent [of "''John  [ at ] acme [DOT] org''"] r t
  show ?thesis by simp
qed

text \<open>
  The cleanup is not idempotent on every string: the last replacement, which deletes
  the white space, turns \<open>[a t]\<close> into the token \<open>[at]\<close>, and the replacement of \<open>(@)\<close>
  inside \<open>((@))\<close> leaves the token \<open>(@)\<close>; a second pass replaces either by \<open>@\<close>.
\<close>

theorem cleanObfuscatedEmail_counterexample:
  "cleanObfuscatedEmail ''[a t]'' = ''[at]'' \<and>
   cleanObfuscatedEmail (cleanObfuscatedEmail ''[a t]'') = ''@'' \<and>
   cleanObfuscatedEmail ''((@))'' = ''(@)'' \<and>
   cleanObfuscatedEmail (cleanObfuscatedEmail ''((@))'') = ''@''"
  by code_simp

section \<open>Evaluations on the example inputs\<close>




end
